theory Spec2Isabelle
  imports Complex_Main "HOL-Library.Log_Nat" "HOL-Library.Word"
begin

section \<open>Conventions\<close>

text \<open>
  The development embeds the parts of the web texture tool that its specification talks
  about: the browser-image loader, the worker loader (worker pool), the texture data model,
  the public \<open>fromColor\<close> entry point, the WebGPU mipmap generator, and the format selection
  of the Basis and KTX transcoding workers.

  The bundled build \<^verbatim>\<open>build/webgpu-texture-loader.js\<close> is minified; its one-letter names are
  given next to each definition, and the definitions carry the names of the classes and
  functions they come from (\<open>ImageLoader\<close> is \<open>T\<close>, \<open>WorkerLoader\<close> is \<open>p\<close>,
  \<open>WebTextureLevelData\<close> is \<open>F\<close>, \<open>WebTextureData\<close> is \<open>I\<close>, \<open>WebTextureTool\<close> is \<open>S\<close>,
  \<open>WebGPUMipmapGenerator\<close> is \<open>G\<close>, \<open>WebGPUTextureClient\<close> is \<open>j\<close>).

  JavaScript values are modelled as follows: \<open>undefined\<close> is \<open>None\<close>; counters are unbounded
  integers (a JavaScript number counts exactly up to \<open>2^53\<close>); an object used as a dictionary
  is a map; a thrown \<open>Error\<close> is the \<open>Inl\<close> branch of a sum; calls on the collaborators
  (workers, the GPU device, the console, promises) are appended to a log in call order.
\<close>

text \<open>The two kinds of exception the code throws or runs into.\<close>

datatype error = Error string | TypeError string

section \<open>Browser-image loader: format negotiation\<close>

text \<open>\<open>Array.prototype.indexOf\<close>: the first index holding the element, \<open>-1\<close> when absent.\<close>

fun indexOf :: "'a list \<Rightarrow> 'a \<Rightarrow> int" where
  "indexOf [] x = -1"
| "indexOf (y # ys) x =
     (if y = x then 0
      else (let i = indexOf ys x in if i = -1 then -1 else i + 1))"

text \<open>The table \<open>k\<close> of the build: the canonical format requested for each image MIME type.\<close>

definition IMAGE_TEXTURE_FORMATS :: "string \<rightharpoonup> string" where
  "IMAGE_TEXTURE_FORMATS =
     [''image/jpeg'' \<mapsto> ''rgb8unorm'',
      ''image/png'' \<mapsto> ''rgba8unorm'',
      ''image/apng'' \<mapsto> ''rgba8unorm'',
      ''image/gif'' \<mapsto> ''rgba8unorm'',
      ''image/bmp'' \<mapsto> ''rgb8unorm'',
      ''image/webp'' \<mapsto> ''rgba8unorm'',
      ''image/x-icon'' \<mapsto> ''rgba8unorm'',
      ''image/svg+xml'' \<mapsto> ''rgba8unorm'']"

text \<open>
  The statement \<^verbatim>\<open>e.supportedFormatList.indexOf(o)==-1&&(o="rgba8unorm")\<close> shared by
  \<open>T.fromUrl\<close> and \<open>T.fromBlob\<close>: \<open>o\<close> is the requested format (\<open>undefined\<close> when the MIME type
  has no entry in the table; a list of format names never holds \<open>undefined\<close>).
\<close>

definition negotiateFormat :: "string list \<Rightarrow> string option \<Rightarrow> string" where
  "negotiateFormat supportedList o_req =
     (case o_req of
        None \<Rightarrow> ''rgba8unorm''
      | Some f \<Rightarrow> if indexOf supportedList f = -1 then ''rgba8unorm'' else f)"

text \<open>The format that \<open>T.fromUrl\<close> and \<open>T.fromBlob\<close> hand on to the client with the decoded bitmap.\<close>

definition ImageLoader_fromUrl_format :: "string list \<Rightarrow> string \<Rightarrow> string" where
  "ImageLoader_fromUrl_format supportedList mime =
     negotiateFormat supportedList (IMAGE_TEXTURE_FORMATS mime)"

definition ImageLoader_fromBlob_format :: "string list \<Rightarrow> string \<Rightarrow> string" where
  "ImageLoader_fromBlob_format supportedList blobType =
     negotiateFormat supportedList (IMAGE_TEXTURE_FORMATS blobType)"

section \<open>Mip-chain length\<close>

text \<open>
  \<^verbatim>\<open>function A(a,e){return Math.floor(Math.log2(Math.max(a,e)))+1}\<close>, the same as
  \<open>calculateMipLevels\<close> of \<^verbatim>\<open>src/webgpu-texture-tool.js\<close>. Texture extents are natural numbers;
  \<open>Math.log2\<close> is taken as the real logarithm, which it agrees with after \<open>Math.floor\<close> on
  every extent a texture can have. At extent \<open>0\<close> JavaScript yields \<open>-Infinity\<close>, here \<open>None\<close>.
\<close>

definition calculateMipLevels :: "nat \<Rightarrow> nat \<Rightarrow> int option" where
  "calculateMipLevels width height =
     (if max width height = 0 then None
      else Some (\<lfloor>log 2 (real (max width height))\<rfloor> + 1))"

section \<open>Texture data model\<close>

text \<open>
  A JavaScript array with holes is a list of optional elements. Writing at or past the end
  extends the array, leaving holes; reading there gives \<open>undefined\<close>.
\<close>

definition array_get :: "'a option list \<Rightarrow> nat \<Rightarrow> 'a option" where
  "array_get xs i = (if i < length xs then xs ! i else None)"

definition array_set :: "'a option list \<Rightarrow> nat \<Rightarrow> 'a \<Rightarrow> 'a option list" where
  "array_set xs i v =
     (if i < length xs then xs[i := Some v]
      else xs @ replicate (i - length xs) None @ [Some v])"

text \<open>
  The data handed to \<open>setSlice\<close>: an \<open>ArrayBuffer\<close> (its bytes), or a typed-array view of a
  buffer with the view's \<open>byteOffset\<close> and \<open>byteLength\<close>.
\<close>

datatype buffer_source =
    ArrayBuffer "nat list"
  | ArrayBufferView "nat list" int int

record slice_options =
  opt_byteOffset :: "int option"
  opt_byteLength :: "int option"

text \<open>A slice as \<open>setSlice\<close> stores it. It has no \<open>sliceIndex\<close> property.\<close>

record slice =
  buffer :: "nat list"
  byteOffset :: int
  byteLength :: int

text \<open>Class \<open>F\<close>, without the back reference to its texture data.\<close>

record WebTextureLevelData =
  levelIndex :: nat
  lvl_width :: nat
  lvl_height :: nat
  slices :: "slice option list"

record level_options =
  opt_width :: "nat option"
  opt_height :: "nat option"

text \<open>The operator \<open>a >> t\<close>: \<open>a\<close> as a signed 32-bit integer, shifted by \<open>t mod 32\<close>.\<close>

definition js_shr :: "nat \<Rightarrow> nat \<Rightarrow> int" where
  "js_shr a t = sint (signed_drop_bit (t mod 32) (word_of_nat a :: 32 word))"

text \<open>\<open>x || y\<close> on a number that may be \<open>undefined\<close>: \<open>undefined\<close> and \<open>0\<close> are falsy.\<close>

definition or_else :: "'a::zero option \<Rightarrow> 'a \<Rightarrow> 'a" where
  "or_else x y = (case x of None \<Rightarrow> y | Some v \<Rightarrow> if v = 0 then y else v)"

text \<open>
  The constructor of \<open>F\<close>:
  \<^verbatim>\<open>this.width=Math.max(1,r.width||this.textureData.width>>t)\<close>, likewise the height.
\<close>

definition WebTextureLevelData_new :: "nat \<Rightarrow> nat \<Rightarrow> nat \<Rightarrow> level_options \<Rightarrow> WebTextureLevelData" where
  "WebTextureLevelData_new data_width data_height t r =
     \<lparr>levelIndex = t,
      lvl_width = nat (max 1 (case opt_width r of
                                None \<Rightarrow> js_shr data_width t
                              | Some v \<Rightarrow> if v = 0 then js_shr data_width t else int v)),
      lvl_height = nat (max 1 (case opt_height r of
                                 None \<Rightarrow> js_shr data_height t
                               | Some v \<Rightarrow> if v = 0 then js_shr data_height t else int v)),
      slices = []\<rparr>"

text \<open>
  \<^verbatim>\<open>setSlice(e,t,r={}){
  if(this.slices[e]!=null)throw new Error("Cannot define an image slice twice.");
  let o=r.byteOffset||0,s=r.byteLength||0,i;
  t instanceof ArrayBuffer?(i=t,s||(s=i.byteLength-o))
                          :(i=t.buffer,s||(s=t.byteLength-o),o+=t.byteOffset),
  this.slices[e]={buffer:i,byteOffset:o,byteLength:s}}\<close>
\<close>

definition setSlice ::
  "WebTextureLevelData \<Rightarrow> nat \<Rightarrow> buffer_source \<Rightarrow> slice_options \<Rightarrow> error + WebTextureLevelData" where
  "setSlice this e t r =
     (if array_get (slices this) e \<noteq> None
      then Inl (Error ''Cannot define an image slice twice.'')
      else
        (let o_off = or_else (opt_byteOffset r) 0;
             s = or_else (opt_byteLength r) 0
         in case t of
              ArrayBuffer i \<Rightarrow>
                Inr (this\<lparr>slices := array_set (slices this) e
                       \<lparr>buffer = i, byteOffset = o_off,
                        byteLength = (if s = 0 then int (length i) - o_off else s)\<rparr>\<rparr>)
            | ArrayBufferView i view_offset view_length \<Rightarrow>
                Inr (this\<lparr>slices := array_set (slices this) e
                       \<lparr>buffer = i, byteOffset = o_off + view_offset,
                        byteLength = (if s = 0 then view_length - o_off else s)\<rparr>\<rparr>)))"

text \<open>
  Class \<open>I\<close>. The class assigns \<open>format\<close>, \<open>width\<close>, \<open>height\<close> and \<open>levels\<close>; the properties
  \<open>depth\<close> and \<open>type\<close> that the client reads are assigned nowhere in it.
\<close>

record WebTextureData =
  td_format :: string
  td_width :: nat
  td_height :: nat
  levels :: "WebTextureLevelData option list"
  td_depth :: "int option"
  td_type :: "string option"

text \<open>
  \<^verbatim>\<open>getLevel(e,t={}){let r=this.levels[e];return r||(r=new F(this,e,t),this.levels[e]=r),r}\<close>
\<close>

definition getLevel ::
  "WebTextureData \<Rightarrow> nat \<Rightarrow> level_options \<Rightarrow> WebTextureLevelData \<times> WebTextureData" where
  "getLevel this e t =
     (case array_get (levels this) e of
        Some r \<Rightarrow> (r, this)
      | None \<Rightarrow>
          (let r = WebTextureLevelData_new (td_width this) (td_height this) e t
           in (r, this\<lparr>levels := array_set (levels this) e r\<rparr>)))"

text \<open>
  \<open>data.getLevel(l).setSlice(e,t,r)\<close>: the level is an object shared with the texture data,
  so the change made by \<open>setSlice\<close> shows in \<open>data.levels[l]\<close>; the level created by \<open>getLevel\<close>
  stays in the data when \<open>setSlice\<close> throws.
\<close>

definition WebTextureData_setSlice ::
  "WebTextureData \<Rightarrow> nat \<Rightarrow> nat \<Rightarrow> buffer_source \<Rightarrow> slice_options \<Rightarrow>
     (error + unit) \<times> WebTextureData" where
  "WebTextureData_setSlice this l e t r =
     (case getLevel this l \<lparr>opt_width = None, opt_height = None\<rparr> of
        (lvl, this1) \<Rightarrow>
          (case setSlice lvl e t r of
             Inl err \<Rightarrow> (Inl err, this1)
           | Inr lvl' \<Rightarrow> (Inr (), this1\<lparr>levels := (levels this1)[l := Some lvl']\<rparr>)))"

text \<open>
  The constructor of \<open>I\<close>:
  \<^verbatim>\<open>constructor(e,t,r,o=null,s={}){this.format=e,this.width=Math.max(1,t),
  this.height=Math.max(1,r),this.levels=[],o&&this.getLevel(0).setSlice(0,o,s)}\<close>
\<close>

definition WebTextureData_new ::
  "string \<Rightarrow> nat \<Rightarrow> nat \<Rightarrow> buffer_source option \<Rightarrow> slice_options \<Rightarrow> error + WebTextureData" where
  "WebTextureData_new e t r o_data s =
     (let this = \<lparr>td_format = e, td_width = max 1 t, td_height = max 1 r, levels = [],
                  td_depth = None, td_type = None\<rparr>
      in case o_data of
           None \<Rightarrow> Inr this
         | Some d \<Rightarrow>
             (case WebTextureData_setSlice this 0 0 d s of
                (Inl err, _) \<Rightarrow> Inl err
              | (Inr _, this') \<Rightarrow> Inr this'))"

section \<open>The format table\<close>

record block_info =
  blockBytes :: nat
  blockWidth :: nat
  blockHeight :: nat

record format_info =
  canGenerateMipmaps :: bool
  compressed :: "block_info option"

text \<open>
  The table \<open>b\<close> (\<open>WebTextureFormat\<close>), without its WebGL entries; \<open>canGenerateMipmaps\<close> is
  \<open>undefined\<close>, hence falsy, where the table does not give it.
\<close>

definition uncompressed_format :: format_info where
  "uncompressed_format = \<lparr>canGenerateMipmaps = True, compressed = None\<rparr>"

definition block_format :: "nat \<Rightarrow> format_info" where
  "block_format bytes =
     \<lparr>canGenerateMipmaps = False,
      compressed = Some \<lparr>blockBytes = bytes, blockWidth = 4, blockHeight = 4\<rparr>\<rparr>"

definition WebTextureFormat :: "(string \<times> format_info) list" where
  "WebTextureFormat =
     [(''rgb8unorm'', uncompressed_format),
      (''rgba8unorm'', uncompressed_format),
      (''rgb8unorm-srgb'', uncompressed_format),
      (''rgba8unorm-srgb'', uncompressed_format),
      (''rgb565unorm'', uncompressed_format),
      (''rgba4unorm'', uncompressed_format),
      (''rgba5551unorm'', uncompressed_format),
      (''bgra8unorm'', uncompressed_format),
      (''bgra8unorm-srgb'', uncompressed_format),
      (''bc1-rgb-unorm'', block_format 8),
      (''bc2-rgba-unorm'', block_format 16),
      (''bc3-rgba-unorm'', block_format 16),
      (''bc7-rgba-unorm'', block_format 16),
      (''etc1-rgb-unorm'', block_format 8),
      (''etc2-rgba8unorm'', block_format 16),
      (''astc-4x4-rgba-unorm'', block_format 16),
      (''pvrtc1-4bpp-rgb-unorm'', block_format 8),
      (''pvrtc1-4bpp-rgba-unorm'', block_format 8)]"

text \<open>The tables \<open>q\<close> and \<open>D\<close> and the function \<open>N\<close> that applies a colour space to a format.\<close>

definition SRGB_FORMATS :: "(string \<times> string) list" where
  "SRGB_FORMATS =
     [(''rgb8unorm'', ''rgb8unorm-srgb''),
      (''rgba8unorm'', ''rgba8unorm-srgb''),
      (''bgra8unorm'', ''bgra8unorm-srgb''),
      (''bc1-rgba-unorm'', ''bc1-rgba-unorm-srgb''),
      (''bc2-rgba-unorm'', ''bc2-rgba-unorm-srgb''),
      (''bc3-rgba-unorm'', ''bc3-rgba-unorm-srgb''),
      (''bc7-rgba-unorm'', ''bc7-rgba-unorm-srgb'')]"

definition LINEAR_FORMATS :: "(string \<times> string) list" where
  "LINEAR_FORMATS = map (\<lambda>(a, b). (b, a)) SRGB_FORMATS"

definition resolveFormat :: "string \<Rightarrow> string option \<Rightarrow> string" where
  "resolveFormat a e =
     (if e = Some ''sRGB'' then (case map_of SRGB_FORMATS a of Some f \<Rightarrow> f | None \<Rightarrow> a)
      else if e = Some ''linear'' then (case map_of LINEAR_FORMATS a of Some f \<Rightarrow> f | None \<Rightarrow> a)
      else a)"

section \<open>The GPU device as a log of calls\<close>

datatype usage_flag = COPY_SRC | COPY_DST | TEXTURE_BINDING | STORAGE_BINDING | RENDER_ATTACHMENT

record extent =
  ext_width :: int
  ext_height :: int
  depthOrArrayLayers :: "int option"

record GPUTextureDescriptor =
  desc_size :: extent
  desc_format :: string
  desc_usage :: "usage_flag set"
  desc_mipLevelCount :: int
  desc_dimension :: "string option"

text \<open>A texture is identified by its creation number.\<close>

type_synonym texture = nat

text \<open>
  A view of one mip level of one array layer
  (\<open>mipLevelCount:1, dimension:"2d", arrayLayerCount:1\<close> in every view the code creates).
\<close>

record view =
  view_texture :: texture
  baseMipLevel :: int
  baseArrayLayer :: int

datatype gpu_call =
    CreateShaderModule
  | CreateRenderPipeline string
  | CreateTexture GPUTextureDescriptor texture
  | WriteTexture texture nat "int option" slice int extent
  | CreateCommandEncoder
  | GetBindGroupLayout
  | CreateView view
  | BeginRenderPass view
  | CreateBindGroup view
  | SetPipeline string
  | SetBindGroup
  | Draw nat
  | EndPass
  | CopyTextureToTexture "texture \<times> int" "texture \<times> int" extent
  | Finish
  | Submit
  | DestroyTexture texture

record gpu =
  calls :: "gpu_call list"
  texturesCreated :: nat

text \<open>\<open>Math.ceil(a/b)\<close> for integers with \<open>b > 0\<close>.\<close>

definition ceil_div :: "int \<Rightarrow> int \<Rightarrow> int" where
  "ceil_div a b = - ((- a) div b)"

section \<open>Mipmap generator\<close>

text \<open>
  Class \<open>G\<close>: a cache of render pipelines by format. The properties
  \<open>mipmapVertexShaderModule\<close> and \<open>mipmapFragmentShaderModule\<close> that \<open>getMipmapPipeline\<close>
  tests are assigned nowhere, so every cache miss creates the shader module again.
\<close>

record WebGPUMipmapGenerator =
  pipelines :: "string set"

definition getMipmapPipeline ::
  "WebGPUMipmapGenerator \<Rightarrow> gpu \<Rightarrow> string \<Rightarrow> WebGPUMipmapGenerator \<times> gpu" where
  "getMipmapPipeline this g e =
     (if e \<in> pipelines this then (this, g)
      else (this\<lparr>pipelines := insert e (pipelines this)\<rparr>,
            g\<lparr>calls := calls g @ [CreateShaderModule, CreateRenderPipeline e]\<rparr>))"

text \<open>
  One round of the inner loop of \<open>generateMipmap\<close>: a view \<open>_\<close> of level \<open>M\<close> of \<open>o\<close> is
  created, a render pass into it samples the view \<open>g\<close>, and \<open>_\<close> becomes the next source:
  \<^verbatim>\<open>let _=o.createView({baseMipLevel:M++,...,baseArrayLayer:c,...}),
  y=m.beginRenderPass({colorAttachments:[{view:_,...}]}),
  z=this.device.createBindGroup({layout:l,entries:[...,{binding:1,resource:g}]});
  y.setPipeline(r),y.setBindGroup(0,z),y.draw(3,1,0,0),y.endPass(),g=_\<close>
\<close>

definition blit :: "string \<Rightarrow> view \<Rightarrow> view \<Rightarrow> gpu_call list" where
  "blit r dst src =
     [CreateView dst, BeginRenderPass dst, CreateBindGroup src, SetPipeline r, SetBindGroup,
      Draw 3, EndPass]"

text \<open>The inner loop \<open>for(let h=1;h<t.mipLevelCount;++h)\<close>, over the values of \<open>h\<close>.\<close>

fun blit_levels :: "string \<Rightarrow> texture \<Rightarrow> int \<Rightarrow> nat list \<Rightarrow> view \<Rightarrow> int \<Rightarrow> gpu_call list" where
  "blit_levels r o_tex c [] g M = []"
| "blit_levels r o_tex c (h # hs) g M =
     (let dst = \<lparr>view_texture = o_tex, baseMipLevel = M, baseArrayLayer = c\<rparr>
      in blit r dst g @ blit_levels r o_tex c hs dst (M + 1))"

text \<open>
  One round of the outer loop \<open>for(let c=0;c<s;++c)\<close>: the first source is level 0 of layer
  \<open>c\<close> of the texture \<open>e\<close>, and \<open>M\<close> starts at \<open>i?1:0\<close>.
\<close>

definition blit_layer :: "string \<Rightarrow> texture \<Rightarrow> texture \<Rightarrow> bool \<Rightarrow> int \<Rightarrow> int \<Rightarrow> gpu_call list" where
  "blit_layer r e o_tex i n c =
     (let g = \<lparr>view_texture = e, baseMipLevel = 0, baseArrayLayer = c\<rparr>
      in CreateView g # blit_levels r o_tex c [1..<nat n] g (if i then 1 else 0))"

text \<open>
  The copy loop:
  \<^verbatim>\<open>for(let g=1;g<t.mipLevelCount;++g)m.copyTextureToTexture({texture:o,mipLevel:g-1},
  {texture:e,mipLevel:g},c),c.width=Math.ceil(c.width/2),c.height=Math.ceil(c.height/2)\<close>
\<close>

definition halved :: "extent \<Rightarrow> extent" where
  "halved c = c\<lparr>ext_width := ceil_div (ext_width c) 2, ext_height := ceil_div (ext_height c) 2\<rparr>"

fun copy_levels :: "texture \<Rightarrow> texture \<Rightarrow> nat list \<Rightarrow> extent \<Rightarrow> gpu_call list" where
  "copy_levels o_tex e [] c = []"
| "copy_levels o_tex e (g # gs) c =
     CopyTextureToTexture (o_tex, int g - 1) (e, int g) c # copy_levels o_tex e gs (halved c)"

text \<open>
  \<open>G.generateMipmap(e,t)\<close>: \<open>e\<close> is the texture, \<open>t\<close> its descriptor. The pipeline is fetched
  (and on a cache miss built) before the dimension is tested.
\<close>

definition generateMipmap ::
  "WebGPUMipmapGenerator \<Rightarrow> gpu \<Rightarrow> texture \<Rightarrow> GPUTextureDescriptor \<Rightarrow>
     (error + texture) \<times> WebGPUMipmapGenerator \<times> gpu" where
  "generateMipmap this g0 e t =
     (case getMipmapPipeline this g0 (desc_format t) of
        (this1, g1) \<Rightarrow>
          if desc_dimension t = Some ''3d'' \<or> desc_dimension t = Some ''1d''
          then (Inl (Error ''Generating mipmaps for non-2d textures is currently unsupported!''),
                this1, g1)
          else
            (let s = or_else (depthOrArrayLayers (desc_size t)) 1;
                 i = (RENDER_ATTACHMENT \<in> desc_usage t);
                 half = \<lparr>ext_width = ceil_div (ext_width (desc_size t)) 2,
                         ext_height = ceil_div (ext_height (desc_size t)) 2,
                         depthOrArrayLayers = Some s\<rparr>;
                 o_tex = (if i then e else texturesCreated g1);
                 g2 = (if i then g1
                       else g1\<lparr>calls := calls g1 @
                                 [CreateTexture
                                    \<lparr>desc_size = half, desc_format = desc_format t,
                                     desc_usage = {TEXTURE_BINDING, COPY_SRC, RENDER_ATTACHMENT},
                                     desc_mipLevelCount = desc_mipLevelCount t - 1,
                                     desc_dimension = None\<rparr>
                                    (texturesCreated g1)],
                               texturesCreated := Suc (texturesCreated g1)\<rparr>)
             in (Inr e, this1,
                 g2\<lparr>calls := calls g2 @
                       [CreateCommandEncoder, GetBindGroupLayout] @
                       concat (map (\<lambda>c. blit_layer (desc_format t) e o_tex i (desc_mipLevelCount t) (int c))
                                 [0..<nat s]) @
                       (if i then [] else copy_levels o_tex e [1..<nat (desc_mipLevelCount t)] half) @
                       [Finish, Submit] @
                       (if i then [] else [DestroyTexture o_tex])\<rparr>)))"

section \<open>The mipmap generation of the older WebGPU client\<close>






section \<open>The WebGPU client's format lists\<close>

text \<open>
  The part of a \<open>GPUDevice\<close> the client reads: \<open>features\<close>, a set of feature names, or
  \<open>undefined\<close>.
\<close>

record GPUDevice =
  features :: "string set option"

text \<open>The table \<open>O\<close>: the formats each device feature adds.\<close>

definition EXTENSION_FORMATS :: "(string \<times> string list) list" where
  "EXTENSION_FORMATS =
     [(''texture-compression-bc'',
       [''bc1-rgba-unorm'', ''bc1-rgba-unorm-srgb'', ''bc2-rgba-unorm'', ''bc2-rgba-unorm-srgb'',
        ''bc3-rgba-unorm'', ''bc3-rgba-unorm-srgb'', ''bc7-rgba-unorm'', ''bc7-rgba-unorm-srgb''])]"

text \<open>Class \<open>j\<close>; \<open>device\<close> is \<open>null\<close> (\<open>None\<close>) once the client is destroyed.\<close>

record WebGPUTextureClient =
  device :: "GPUDevice option"
  allowCompressedFormats :: bool
  uncompressedFormatList :: "string list"
  supportedFormatList :: "string list"
  mipmapGenerator :: WebGPUMipmapGenerator

text \<open>
  The constructor of \<open>j\<close>:
  \<^verbatim>\<open>let t=e.features; if(t){for(let r in O)if(t.has(r)){let o=O[r];this.supportedFormatList.push(...o)}}\<close>
  It ends with \<open>this.mipmapGenerator=new G(e)\<close>; the sampler that the constructor of \<open>G\<close>
  creates is not logged.
\<close>

definition WebGPUTextureClient_new :: "GPUDevice \<Rightarrow> WebGPUTextureClient" where
  "WebGPUTextureClient_new e =
     \<lparr>device = Some e,
      allowCompressedFormats = True,
      uncompressedFormatList =
        [''rgba8unorm'', ''rgba8unorm-srgb'', ''bgra8unorm'', ''bgra8unorm-srgb''],
      supportedFormatList =
        [''rgba8unorm'', ''rgba8unorm-srgb'', ''bgra8unorm'', ''bgra8unorm-srgb''] @
        (case features e of
           None \<Rightarrow> []
         | Some t \<Rightarrow> concat (map (\<lambda>(r, fs). if r \<in> t then fs else []) EXTENSION_FORMATS)),
      mipmapGenerator = \<lparr>pipelines = {}\<rparr>\<rparr>"

definition supportedFormats :: "WebGPUTextureClient \<Rightarrow> string list" where
  "supportedFormats this =
     (if allowCompressedFormats this then supportedFormatList this
      else uncompressedFormatList this)"

definition WebGPUTextureClient_destroy :: "WebGPUTextureClient \<Rightarrow> WebGPUTextureClient" where
  "WebGPUTextureClient_destroy this = this\<lparr>device := None\<rparr>"

section \<open>The WebGPU client: textures from texture data\<close>

text \<open>The second argument of \<open>fromTextureData\<close>, as far as it is read.\<close>

record texture_options =
  tex_mipmaps :: bool
  tex_colorSpace :: "string option"

text \<open>
  Class \<open>E\<close> (\<open>WebTextureResult\<close>); its constructor replaces a falsy property by a default:
  \<^verbatim>\<open>this.width=t.width||1,this.height=t.height||1,this.depth=t.depth||1,
  this.mipLevels=t.mipLevels||1,this.format=t.format||"rgba8unorm",this.type=t.type||"2d"\<close>
\<close>

record WebTextureResult =
  res_texture :: texture
  res_width :: nat
  res_height :: nat
  res_depth :: int
  res_mipLevels :: int
  res_format :: string
  res_type :: string

definition WebTextureResult_new ::
  "texture \<Rightarrow> nat \<Rightarrow> nat \<Rightarrow> int option \<Rightarrow> int \<Rightarrow> string \<Rightarrow> string option \<Rightarrow> WebTextureResult" where
  "WebTextureResult_new e w h d m f ty =
     \<lparr>res_texture = e,
      res_width = (if w = 0 then 1 else w),
      res_height = (if h = 0 then 1 else h),
      res_depth = or_else d 1,
      res_mipLevels = (if m = 0 then 1 else m),
      res_format = (if f = [] then ''rgba8unorm'' else f),
      res_type = (case ty of None \<Rightarrow> ''2d'' | Some x \<Rightarrow> if x = [] then ''2d'' else x)\<rparr>"

definition quoted :: "string \<Rightarrow> string" where
  "quoted s = CHR 0x22 # s @ [CHR 0x22]"

text \<open>
  The loop \<open>for(let h of g.slices)this.device.queue.writeTexture(...)\<close>: the calls made, and the
  \<open>TypeError\<close> raised on reaching a hole of the array (\<open>h\<close> is \<open>undefined\<close>). A slice has no
  \<open>sliceIndex\<close>, so the origin's \<open>z\<close> is \<open>undefined\<close>.
\<close>

fun write_slices ::
  "texture \<Rightarrow> WebTextureLevelData \<Rightarrow> block_info \<Rightarrow> slice option list \<Rightarrow> gpu_call list \<times> error option" where
  "write_slices c g o_blk [] = ([], None)"
| "write_slices c g o_blk (None # hs) =
     ([], Some (TypeError ''Cannot read properties of undefined''))"
| "write_slices c g o_blk (Some h # hs) =
     (case write_slices c g o_blk hs of
        (cs, err) \<Rightarrow>
          (WriteTexture c (levelIndex g) None h
             (ceil_div (int (lvl_width g)) (int (blockWidth o_blk)) * int (blockBytes o_blk))
             \<lparr>ext_width = ceil_div (int (lvl_width g)) (int (blockWidth o_blk)) * int (blockWidth o_blk),
              ext_height = ceil_div (int (lvl_height g)) (int (blockHeight o_blk)) * int (blockHeight o_blk),
              depthOrArrayLayers = None\<rparr> # cs,
           err))"

text \<open>The loop \<open>for(let g of e.levels)\<close> around it.\<close>

fun write_levels ::
  "texture \<Rightarrow> block_info \<Rightarrow> WebTextureLevelData option list \<Rightarrow> gpu_call list \<times> error option" where
  "write_levels c o_blk [] = ([], None)"
| "write_levels c o_blk (None # gs) =
     ([], Some (TypeError ''Cannot read properties of undefined''))"
| "write_levels c o_blk (Some g # gs) =
     (case write_slices c g o_blk (slices g) of
        (cs, Some err) \<Rightarrow> (cs, Some err)
      | (cs, None) \<Rightarrow> (case write_levels c o_blk gs of (cs', err) \<Rightarrow> (cs @ cs', err)))"

text \<open>
  \<open>j.fromTextureData(e,t)\<close>. The mip-level count is \<open>-Infinity\<close> only for a texture of extent
  0, which the constructor of \<open>I\<close> excludes; \<open>createTexture\<close> rejects it with a \<open>TypeError\<close>.
\<close>

definition fromTextureData ::
  "WebGPUTextureClient \<Rightarrow> gpu \<Rightarrow> WebTextureData \<Rightarrow> texture_options \<Rightarrow>
     (error + WebTextureResult) \<times> WebGPUTextureClient \<times> gpu" where
  "fromTextureData this g e t =
     (if device this = None
      then (Inl (Error ''Cannot create new textures after object has been destroyed.''), this, g)
      else
        case map_of WebTextureFormat (td_format e) of
          None \<Rightarrow> (Inl (Error (''Unknown format '' @ quoted (td_format e))), this, g)
        | Some r \<Rightarrow>
            (let o_blk = (case compressed r of
                            Some b \<Rightarrow> b
                          | None \<Rightarrow> \<lparr>blockBytes = 4, blockWidth = 1, blockHeight = 1\<rparr>);
                 s = (tex_mipmaps t \<and> canGenerateMipmaps r);
                 i_opt = (if 1 < length (levels e) then Some (int (length (levels e)))
                          else if s then calculateMipLevels (td_width e) (td_height e)
                          else Some 1)
             in case i_opt of
                  None \<Rightarrow> (Inl (TypeError ''mipLevelCount is not a finite number''), this, g)
                | Some i \<Rightarrow>
                    (let l = \<lparr>desc_size =
                                \<lparr>ext_width = ceil_div (int (td_width e)) (int (blockWidth o_blk)) *
                                              int (blockWidth o_blk),
                                 ext_height = ceil_div (int (td_height e)) (int (blockHeight o_blk)) *
                                              int (blockHeight o_blk),
                                 depthOrArrayLayers = td_depth e\<rparr>,
                              desc_format = resolveFormat (td_format e) (tex_colorSpace t),
                              desc_usage = {TEXTURE_BINDING, COPY_DST},
                              desc_mipLevelCount = i,
                              desc_dimension = None\<rparr>;
                         c = texturesCreated g;
                         g1 = g\<lparr>calls := calls g @ [CreateTexture l c], texturesCreated := Suc c\<rparr>;
                         res = WebTextureResult_new c (td_width e) (td_height e) (td_depth e) i
                                 (td_format e) (td_type e)
                     in case write_levels c o_blk (levels e) of
                          (ws, Some err) \<Rightarrow> (Inl err, this, g1\<lparr>calls := calls g1 @ ws\<rparr>)
                        | (ws, None) \<Rightarrow>
                            (let g2 = g1\<lparr>calls := calls g1 @ ws\<rparr>
                             in if s
                                then (case generateMipmap (mipmapGenerator this) g2 c l of
                                        (Inl err, gen, g3) \<Rightarrow>
                                          (Inl err, this\<lparr>mipmapGenerator := gen\<rparr>, g3)
                                      | (Inr _, gen, g3) \<Rightarrow>
                                          (Inr res, this\<lparr>mipmapGenerator := gen\<rparr>, g3))
                                else (Inr res, this, g2)))))"

text \<open>
  What a caller writes to define one more slice of a texture's data and then upload it:
  \<^verbatim>\<open>data.getLevel(l).setSlice(e,t,r); client.fromTextureData(data,opts)\<close>.
  A throw in the first statement skips the second.
\<close>

definition setSlice_then_upload ::
  "WebGPUTextureClient \<Rightarrow> gpu \<Rightarrow> WebTextureData \<Rightarrow> nat \<Rightarrow> nat \<Rightarrow> buffer_source \<Rightarrow>
     slice_options \<Rightarrow> texture_options \<Rightarrow> (error + WebTextureResult) \<times> WebGPUTextureClient \<times> gpu" where
  "setSlice_then_upload cl g data l e t r opts =
     (case WebTextureData_setSlice data l e t r of
        (Inl err, _) \<Rightarrow> (Inl err, cl, g)
      | (Inr _, data') \<Rightarrow> fromTextureData cl g data' opts)"

section \<open>The public tool: a texture of one colour\<close>

text \<open>Class \<open>S\<close>; \<open>this[n]\<close> is the client, \<open>null\<close> once the tool is destroyed.\<close>

record WebTextureTool =
  tool_client :: "WebGPUTextureClient option"

text \<open>
  The conversion of a number stored into a \<open>Uint8Array\<close>: truncated towards zero, modulo 256.
  Colour channels are real numbers here, and \<open>e*255\<close> is the real product.
\<close>

definition ToUint8 :: "real \<Rightarrow> nat" where
  "ToUint8 x = nat ((if 0 \<le> x then \<lfloor>x\<rfloor> else \<lceil>x\<rceil>) mod 256)"

definition fromColor_unsupported :: string where
  "fromColor_unsupported =
     ''fromColor only supports '' @ quoted ''rgba8unorm'' @ '' and '' @
     quoted ''rgba8unorm-srgb'' @ '' formats''"

text \<open>
  \<^verbatim>\<open>fromColor(e,t,r,o=1,s="rgba8unorm"){
  if(!this[n])throw new Error("Cannot create new textures after object has been destroyed.");
  if(s!="rgba8unorm"&&s!="rgba8unorm-srgb")throw new Error('fromColor only supports ...');
  let i=new Uint8Array([e*255,t*255,r*255,o*255]);
  return this[n].fromTextureData(new I(s,1,1,i),!1)}\<close>

  An argument left out is \<open>None\<close> and takes its default. The second argument of
  \<open>fromTextureData\<close> is \<open>false\<close>, whose properties \<open>mipmaps\<close> and \<open>colorSpace\<close> are \<open>undefined\<close>.
\<close>

definition fromColor ::
  "WebTextureTool \<Rightarrow> gpu \<Rightarrow> real \<Rightarrow> real \<Rightarrow> real \<Rightarrow> real option \<Rightarrow> string option \<Rightarrow>
     (error + WebTextureResult) \<times> WebTextureTool \<times> gpu" where
  "fromColor this g e t r o_arg s_arg =
     (let o_a = (case o_arg of None \<Rightarrow> 1 | Some v \<Rightarrow> v);
          s = (case s_arg of None \<Rightarrow> ''rgba8unorm'' | Some f \<Rightarrow> f)
      in case tool_client this of
           None \<Rightarrow>
             (Inl (Error ''Cannot create new textures after object has been destroyed.''), this, g)
         | Some cl \<Rightarrow>
             if s \<noteq> ''rgba8unorm'' \<and> s \<noteq> ''rgba8unorm-srgb''
             then (Inl (Error fromColor_unsupported), this, g)
             else
               (let i = ArrayBufferView (map ToUint8 [e * 255, t * 255, r * 255, o_a * 255]) 0 4
                in case WebTextureData_new s 1 1 (Some i)
                          \<lparr>opt_byteOffset = None, opt_byteLength = None\<rparr> of
                     Inl err \<Rightarrow> (Inl err, this, g)
                   | Inr data \<Rightarrow>
                       (case fromTextureData cl g data
                               \<lparr>tex_mipmaps = False, tex_colorSpace = None\<rparr> of
                          (res, cl', g') \<Rightarrow> (res, this\<lparr>tool_client := Some cl'\<rparr>, g'))))"

text \<open>\<^verbatim>\<open>destroy(){this[n]&&(this[n].destroy(),this[n]=null)}\<close>\<close>

definition WebTextureTool_destroy :: "WebTextureTool \<Rightarrow> WebTextureTool" where
  "WebTextureTool_destroy this = this\<lparr>tool_client := None\<rparr>"


definition empty_gpu :: gpu where
  "empty_gpu = \<lparr>calls = [], texturesCreated = 0\<rparr>"

text \<open>A level of a 4 by 4 texture without slices, and the texture data holding it.\<close>

definition example_level :: WebTextureLevelData where
  "example_level = WebTextureLevelData_new 4 4 0 \<lparr>opt_width = None, opt_height = None\<rparr>"

definition example_data :: "WebTextureLevelData \<Rightarrow> WebTextureData" where
  "example_data lvl =
     \<lparr>td_format = ''rgba8unorm'', td_width = 4, td_height = 4, levels = [Some lvl],
      td_depth = None, td_type = None\<rparr>"

text \<open>The example level with slice 0 defined, and a two-layer render-attachment texture.\<close>

definition example_level_defined :: WebTextureLevelData where
  "example_level_defined =
     example_level\<lparr>slices := [Some \<lparr>buffer = [1, 2, 3, 4], byteOffset = 0, byteLength = 4\<rparr>]\<rparr>"


section \<open>Worker loader: the pool of transcoding workers\<close>

text \<open>
  Module state of the worker loader: \<open>V\<close> is \<open>MAX_WORKER_POOL_SIZE\<close>, \<open>L\<close> is
  \<open>PendingTextureRequest\<close>, \<open>d\<close> is the table \<open>pendingTextures\<close>, \<open>C\<close> is
  \<open>nextPendingTextureId\<close> (initially 1), \<open>X\<close> is \<open>onWorkerMessage\<close>.
\<close>

definition MAX_WORKER_POOL_SIZE :: nat where
  "MAX_WORKER_POOL_SIZE = 4"

text \<open>The options object of a load (\<open>x\<close> holds the defaults).\<close>

record load_options =
  mimeType :: "string option"
  mipmaps :: bool
  colorSpace :: string
  extension :: "string option"

text \<open>
  A pending request holds its client, its options and the two continuations of its promise;
  the promise is identified by the id the request is stored under.
\<close>

record PendingTextureRequest =
  client :: WebGPUTextureClient
  options :: load_options

text \<open>A \<open>Worker\<close> object is identified by its creation number.\<close>

type_synonym worker = nat

datatype texture_source = Url string | Buffer "nat list"

record worker_request =
  req_id :: nat
  req_source :: texture_source
  req_supportedFormats :: "string list"
  req_mipmaps :: bool
  req_extension :: "string option"

text \<open>A message from a worker: the id, and an error string on failure.\<close>

record worker_response =
  resp_id :: nat
  resp_error :: "string option"

text \<open>What the loader does to its collaborators, in call order.\<close>

datatype effect =
    NewWorker string worker
  | PostMessage worker worker_request
  | SetPending nat
  | DeletePending nat
  | Terminate worker
  | Resolve nat
  | Reject nat string
  | ConsoleError string

record world =
  pendingTextures :: "nat \<rightharpoonup> PendingTextureRequest"
  nextPendingTextureId :: nat
  workersCreated :: nat
  effects :: "effect list"

definition initial_world :: world where
  "initial_world =
     \<lparr>pendingTextures = Map.empty, nextPendingTextureId = 1, workersCreated = 0, effects = []\<rparr>"

text \<open>
  Class \<open>p\<close>. The constructor assigns \<open>workerPath\<close>, \<open>workerPool\<close>, \<open>nextWorker\<close> and
  \<open>outstandingRequests\<close>; the property \<open>worker\<close> that \<open>destroy\<close> reads is assigned nowhere in
  the class, so it is \<open>undefined\<close> on every object the constructor builds.
\<close>

record WorkerLoader =
  workerPath :: string
  workerPool :: "worker list"
  nextWorker :: nat
  outstandingRequests :: int
  worker :: "worker option"

text \<open>
  \<^verbatim>\<open>addWorker(){let e=new Worker(this.workerPath);
  return e.onmessage=t=>{X(t),this.outstandingRequests--},this.workerPool.push(e),e}\<close>
\<close>

definition addWorker :: "WorkerLoader \<Rightarrow> world \<Rightarrow> worker \<times> WorkerLoader \<times> world" where
  "addWorker this w =
     (let e = workersCreated w
      in (e,
          this\<lparr>workerPool := workerPool this @ [e]\<rparr>,
          w\<lparr>workersCreated := Suc e, effects := effects w @ [NewWorker (workerPath this) e]\<rparr>))"

text \<open>The constructor; \<open>H\<close> is the directory of the module, \<open>e\<close> the relative worker path.\<close>

definition WorkerLoader_new :: "string \<Rightarrow> string \<Rightarrow> world \<Rightarrow> WorkerLoader \<times> world" where
  "WorkerLoader_new H e w =
     (case addWorker \<lparr>workerPath = H @ e, workerPool = [], nextWorker = 0,
                      outstandingRequests = 0, worker = None\<rparr> w of
        (_, this, w') \<Rightarrow> (this, w'))"

text \<open>
  \<^verbatim>\<open>selectWorker(){return this.outstandingRequests++,
  this.outstandingRequests>=this.workerPool.length&&this.workerPool.length<V
  ?this.addWorker():this.workerPool[this.nextWorker++%this.workerPool.length]}\<close>

  Reading an empty pool gives \<open>undefined\<close> (the index is \<open>NaN\<close>), here \<open>None\<close>.
\<close>

definition selectWorker :: "WorkerLoader \<Rightarrow> world \<Rightarrow> worker option \<times> WorkerLoader \<times> world" where
  "selectWorker this w =
     (let this1 = this\<lparr>outstandingRequests := outstandingRequests this + 1\<rparr>
      in if int (length (workerPool this1)) \<le> outstandingRequests this1 \<and>
            length (workerPool this1) < MAX_WORKER_POOL_SIZE
         then (case addWorker this1 w of (e, this2, w2) \<Rightarrow> (Some e, this2, w2))
         else ((if workerPool this1 = [] then None
                else Some (workerPool this1 ! (nextWorker this1 mod length (workerPool this1)))),
               this1\<lparr>nextWorker := nextWorker this1 + 1\<rparr>,
               w))"

text \<open>
  \<open>fromUrl\<close> and \<open>fromBuffer\<close> differ in the source field of the message only:
  \<^verbatim>\<open>let o=C++;
  return this.selectWorker().postMessage({id:o,url:t,supportedFormats:e.supportedFormats(),
  mipmaps:r.mipmaps,extension:r.extension}),new Promise((s,i)=>{d[o]=new L(e,r,s,i)})\<close>

  The functions are \<open>async\<close> and hold no \<open>await\<close>: the whole body runs when they are called,
  and a throw inside (posting to \<open>undefined\<close>) rejects the returned promise. The executor of
  \<open>new Promise\<close> runs inside the constructor call, after \<open>postMessage\<close> has returned.
\<close>

definition dispatch ::
  "WorkerLoader \<Rightarrow> world \<Rightarrow> WebGPUTextureClient \<Rightarrow> texture_source \<Rightarrow> load_options \<Rightarrow>
     (error + nat) \<times> WorkerLoader \<times> world" where
  "dispatch this w e t r =
     (let o_id = nextPendingTextureId w;
          w1 = w\<lparr>nextPendingTextureId := o_id + 1\<rparr>
      in case selectWorker this w1 of
           (None, this1, w2) \<Rightarrow>
             (Inl (TypeError ''Cannot read properties of undefined''), this1, w2)
         | (Some wk, this1, w2) \<Rightarrow>
             (let w3 = w2\<lparr>effects := effects w2 @
                        [PostMessage wk
                           \<lparr>req_id = o_id, req_source = t,
                            req_supportedFormats = supportedFormats e,
                            req_mipmaps = mipmaps r, req_extension = extension r\<rparr>]\<rparr>;
                  w4 = w3\<lparr>pendingTextures := (pendingTextures w3)(o_id \<mapsto> \<lparr>client = e, options = r\<rparr>),
                          effects := effects w3 @ [SetPending o_id]\<rparr>
              in (Inr o_id, this1, w4)))"

definition WorkerLoader_fromUrl ::
  "WorkerLoader \<Rightarrow> world \<Rightarrow> WebGPUTextureClient \<Rightarrow> string \<Rightarrow> load_options \<Rightarrow>
     (error + nat) \<times> WorkerLoader \<times> world" where
  "WorkerLoader_fromUrl this w e t r = dispatch this w e (Url t) r"

definition WorkerLoader_fromBuffer ::
  "WorkerLoader \<Rightarrow> world \<Rightarrow> WebGPUTextureClient \<Rightarrow> nat list \<Rightarrow> load_options \<Rightarrow>
     (error + nat) \<times> WorkerLoader \<times> world" where
  "WorkerLoader_fromBuffer this w e t r = dispatch this w e (Buffer t) r"

text \<open>
  \<open>X\<close>, the handler of a worker's message. A JavaScript string is falsy when empty. The call
  \<open>e.client.fromTextureData(a.data,e.options)\<close> that builds the texture is the parameter
  \<open>build_texture\<close>; when it throws, the promise is neither resolved nor rejected.
\<close>

definition truthy :: "string option \<Rightarrow> bool" where
  "truthy s = (case s of None \<Rightarrow> False | Some m \<Rightarrow> m \<noteq> [])"

text \<open>The text of an error property interpolated into a message.\<close>

definition error_text :: "string option \<Rightarrow> string" where
  "error_text s = (case s of None \<Rightarrow> ''undefined'' | Some m \<Rightarrow> m)"

definition onWorkerMessage ::
  "(PendingTextureRequest \<Rightarrow> worker_response \<Rightarrow> error + unit) \<Rightarrow> worker_response \<Rightarrow> world \<Rightarrow>
     (error + unit) \<times> world" where
  "onWorkerMessage build_texture a w =
     (case pendingTextures w (resp_id a) of
        None \<Rightarrow>
          (Inr (),
           w\<lparr>effects := effects w @
               (if truthy (resp_error a)
                then [ConsoleError (''Texture load failed: '' @ error_text (resp_error a))] else []) @
               [ConsoleError ''Invalid pending texture ID'']\<rparr>)
      | Some e \<Rightarrow>
          (let w1 = w\<lparr>pendingTextures := (pendingTextures w)(resp_id a := None),
                      effects := effects w @ [DeletePending (resp_id a)]\<rparr>
           in if truthy (resp_error a)
              then (Inr (),
                    w1\<lparr>effects := effects w1 @
                         [ConsoleError (''Texture load failed: '' @ error_text (resp_error a)),
                          Reject (resp_id a) (error_text (resp_error a))]\<rparr>)
              else (case build_texture e a of
                      Inl err \<Rightarrow> (Inl err, w1)
                    | Inr _ \<Rightarrow> (Inr (), w1\<lparr>effects := effects w1 @ [Resolve (resp_id a)]\<rparr>))))"

text \<open>The \<open>onmessage\<close> closure that \<open>addWorker\<close> installs: \<^verbatim>\<open>t=>{X(t),this.outstandingRequests--}\<close>.\<close>

definition onmessage ::
  "(PendingTextureRequest \<Rightarrow> worker_response \<Rightarrow> error + unit) \<Rightarrow> worker_response \<Rightarrow>
     WorkerLoader \<Rightarrow> world \<Rightarrow> (error + unit) \<times> WorkerLoader \<times> world" where
  "onmessage build_texture t this w =
     (case onWorkerMessage build_texture t w of
        (Inl err, w') \<Rightarrow> (Inl err, this, w')
      | (Inr _, w') \<Rightarrow> (Inr (), this\<lparr>outstandingRequests := outstandingRequests this - 1\<rparr>, w'))"

text \<open>
  \<^verbatim>\<open>destroy(){if(this.worker){this.worker.terminate();
  let e=new Error("Texture loader was destroyed.");for(let t of d)t.reject(e)}}\<close>

  A worker object is truthy, so the guard holds exactly when \<open>this.worker\<close> is assigned. Inside
  the guard, \<open>d\<close> is a plain object, which \<open>for ... of\<close> cannot iterate: the loop throws a
  \<open>TypeError\<close> before its first round, after the worker has been terminated.
\<close>

definition WorkerLoader_destroy :: "WorkerLoader \<Rightarrow> world \<Rightarrow> (error + unit) \<times> WorkerLoader \<times> world" where
  "WorkerLoader_destroy this w =
     (case worker this of
        None \<Rightarrow> (Inr (), this, w)
      | Some wk \<Rightarrow>
          (Inl (TypeError ''d is not iterable''), this,
           w\<lparr>effects := effects w @ [Terminate wk]\<rparr>))"

text \<open>
  What can happen to a loader between two moments: a call of \<open>selectWorker\<close>, a dispatch, the
  delivery of a worker's message, a call of \<open>destroy\<close>. Each runs to completion before the next
  starts (one JavaScript thread).
\<close>

datatype pool_event =
    CallSelectWorker
  | CallDispatch WebGPUTextureClient texture_source load_options
  | Deliver worker_response bool
  | CallDestroy

definition materialise :: "bool \<Rightarrow> PendingTextureRequest \<Rightarrow> worker_response \<Rightarrow> error + unit" where
  "materialise ok e a =
     (if ok then Inr ()
      else Inl (Error ''Cannot create new textures after object has been destroyed.''))"

fun step :: "pool_event \<Rightarrow> WorkerLoader \<times> world \<Rightarrow> WorkerLoader \<times> world" where
  "step CallSelectWorker (this, w) = snd (selectWorker this w)"
| "step (CallDispatch e t r) (this, w) = snd (dispatch this w e t r)"
| "step (Deliver a ok) (this, w) = snd (onmessage (materialise ok) a this w)"
| "step CallDestroy (this, w) = snd (WorkerLoader_destroy this w)"

fun run :: "pool_event list \<Rightarrow> WorkerLoader \<times> world \<Rightarrow> WorkerLoader \<times> world" where
  "run [] s = s"
| "run (ev # evs) s = run evs (step ev s)"

section \<open>Bookkeeping of the worker loader\<close>

text \<open>
  The ids of the requests posted to workers so far, and the ids whose entry has been taken
  out of the table by \<open>onWorkerMessage\<close>, read off the log.
\<close>

definition posted_ids :: "effect list \<Rightarrow> nat list" where
  "posted_ids es = concat (map (\<lambda>x. case x of PostMessage wk m \<Rightarrow> [req_id m] | _ \<Rightarrow> []) es)"

definition deleted_ids :: "effect list \<Rightarrow> nat list" where
  "deleted_ids es = concat (map (\<lambda>x. case x of DeletePending i \<Rightarrow> [i] | _ \<Rightarrow> []) es)"

definition world_inv :: "world \<Rightarrow> bool" where
  "world_inv w \<longleftrightarrow>
     (\<forall>i \<in> dom (pendingTextures w). i < nextPendingTextureId w) \<and>
     (\<forall>i \<in> set (posted_ids (effects w)).
        i < nextPendingTextureId w \<and>
        (pendingTextures w i \<noteq> None \<or> i \<in> set (deleted_ids (effects w))))"

text \<open>
  \<open>recorded_before_posted i es\<close>: going through the log in call order, the entry for \<open>i\<close> is
  stored in the table before a message carrying \<open>i\<close> is posted.
\<close>

fun recorded_before_posted :: "nat \<Rightarrow> effect list \<Rightarrow> bool" where
  "recorded_before_posted i [] = False"
| "recorded_before_posted i (SetPending j # es) =
     (if j = i then True else recorded_before_posted i es)"
| "recorded_before_posted i (PostMessage wk m # es) =
     (if req_id m = i then False else recorded_before_posted i es)"
| "recorded_before_posted i (_ # es) = recorded_before_posted i es"

text \<open>
  \<open>kept i x w\<close>: id \<open>i\<close> has been allocated, and unless a response for \<open>i\<close> has been handled
  the table holds \<open>x\<close> under \<open>i\<close>.
\<close>

definition kept :: "nat \<Rightarrow> PendingTextureRequest \<Rightarrow> world \<Rightarrow> bool" where
  "kept i x w \<longleftrightarrow>
     i < nextPendingTextureId w \<and>
     (if i \<in> set (deleted_ids (effects w)) then True else pendingTextures w i = Some x)"

text \<open>A pool as the loader registry builds it, and the same pool with one request pending.\<close>

definition example_client :: WebGPUTextureClient where
  "example_client = WebGPUTextureClient_new \<lparr>features = None\<rparr>"

definition example_options :: load_options where
  "example_options =
     \<lparr>mimeType = Some ''image/basis'', mipmaps = True, colorSpace = ''default'',
      extension = None\<rparr>"

definition example_pool :: "WorkerLoader \<times> world" where
  "example_pool = WorkerLoader_new ''/'' ''workers/basis/basis-worker.js'' initial_world"

definition example_pool_pending :: "WorkerLoader \<times> world" where
  "example_pool_pending =
     snd (WorkerLoader_fromUrl (fst example_pool) (snd example_pool)
            example_client ''a.basis'' example_options)"


section \<open>Transcode-format selection in the workers\<close>

subsection \<open>The Basis worker\<close>

text \<open>The transcoder formats (\<open>BASIS_FORMAT\<close>).\<close>

datatype basis_format =
    cTFETC1_RGB | cTFETC2_RGBA | cTFBC1_RGB | cTFBC3_RGBA | cTFBC4_R | cTFBC5_RG | cTFBC7_RGBA
  | cTFPVRTC1_4_RGB | cTFPVRTC1_4_RGBA | cTFASTC_4x4_RGBA
  | cTFRGBA32 | cTFRGB565 | cTFBGR565 | cTFRGBA4444

text \<open>
  \<open>WTT_FORMAT_MAP\<close> of the Basis worker: the canonical format of a transcoder format, and
  whether it is marked \<open>uncompressed\<close>.
\<close>

definition BASIS_WTT_FORMAT_MAP :: "(basis_format \<times> string \<times> bool) list" where
  "BASIS_WTT_FORMAT_MAP =
     [(cTFBC1_RGB, ''bc1-rgb-unorm'', False),
      (cTFBC3_RGBA, ''bc3-rgba-unorm'', False),
      (cTFBC7_RGBA, ''bc7-rgba-unorm'', False),
      (cTFETC1_RGB, ''etc1-rgb-unorm'', False),
      (cTFETC2_RGBA, ''etc2-rgba8unorm'', False),
      (cTFASTC_4x4_RGBA, ''astc-4x4-rgba-unorm'', False),
      (cTFPVRTC1_4_RGB, ''pvrtc1-4bpp-rgb-unorm'', False),
      (cTFPVRTC1_4_RGBA, ''pvrtc1-4bpp-rgba-unorm'', False),
      (cTFRGBA32, ''rgba8unorm'', True),
      (cTFRGB565, ''rgb565unorm'', True),
      (cTFRGBA4444, ''rgba4unorm'', True)]"

text \<open>
  The table \<open>supportedFormats\<close> that \<open>onmessage\<close> builds from the list in the message:
  \<^verbatim>\<open>supportedFormats[basisFormat] = msg.data.supportedFormats.indexOf(wttFormat.format) > -1\<close>
  for every key of \<open>WTT_FORMAT_MAP\<close>; any other key reads \<open>undefined\<close>, which is falsy.
\<close>

definition basis_supported :: "string list \<Rightarrow> basis_format \<Rightarrow> bool" where
  "basis_supported fs b =
     (case map_of BASIS_WTT_FORMAT_MAP b of
        None \<Rightarrow> False
      | Some (name, _) \<Rightarrow> - 1 < indexOf fs name)"

text \<open>The choice of \<open>basisFormat\<close> in \<open>transcode\<close>: the two \<open>if\<close> chains, in their order.\<close>

definition basis_select :: "bool \<Rightarrow> string list \<Rightarrow> basis_format" where
  "basis_select hasAlpha fs =
     (if hasAlpha then
        (if basis_supported fs cTFETC2_RGBA then cTFETC2_RGBA
         else if basis_supported fs cTFBC7_RGBA then cTFBC7_RGBA
         else if basis_supported fs cTFBC3_RGBA then cTFBC3_RGBA
         else if basis_supported fs cTFASTC_4x4_RGBA then cTFASTC_4x4_RGBA
         else if basis_supported fs cTFPVRTC1_4_RGBA then cTFPVRTC1_4_RGBA
         else cTFRGBA32)
      else
        (if basis_supported fs cTFETC1_RGB then cTFETC1_RGB
         else if basis_supported fs cTFBC7_RGBA then cTFBC7_RGBA
         else if basis_supported fs cTFBC1_RGB then cTFBC1_RGB
         else if basis_supported fs cTFETC2_RGBA then cTFETC2_RGBA
         else if basis_supported fs cTFASTC_4x4_RGBA then cTFASTC_4x4_RGBA
         else if basis_supported fs cTFPVRTC1_4_RGB then cTFPVRTC1_4_RGB
         else if basis_supported fs cTFRGB565 then cTFRGB565
         else cTFRGBA32))"

text \<open>The preference orders that the two chains spell out, without the final \<open>cTFRGBA32\<close>.\<close>

definition basis_alpha_order :: "basis_format list" where
  "basis_alpha_order =
     [cTFETC2_RGBA, cTFBC7_RGBA, cTFBC3_RGBA, cTFASTC_4x4_RGBA, cTFPVRTC1_4_RGBA]"

definition basis_opaque_order :: "basis_format list" where
  "basis_opaque_order =
     [cTFETC1_RGB, cTFBC7_RGBA, cTFBC1_RGB, cTFETC2_RGBA, cTFASTC_4x4_RGBA, cTFPVRTC1_4_RGB,
      cTFRGB565]"

subsection \<open>The KTX worker\<close>

text \<open>\<open>WTT_FORMAT_MAP\<close> of the KTX worker, keyed by the name of the transcode target.\<close>

definition KTX_WTT_FORMAT_MAP :: "(string \<times> string \<times> bool) list" where
  "KTX_WTT_FORMAT_MAP =
     [(''BC1_RGB'', ''bc1-rgb-unorm'', False),
      (''BC3_RGBA'', ''bc3-rgba-unorm'', False),
      (''BC7_M5_RGBA'', ''bc7-rgba-unorm'', False),
      (''ETC1_RGB'', ''etc1-rgb-unorm'', False),
      (''ETC2_RGBA'', ''etc2-rgba8unorm'', False),
      (''ASTC_4x4_RGBA'', ''astc-4x4-rgba-unorm'', False),
      (''PVRTC1_4_RGB'', ''pvrtc1-4bpp-rgb-unorm'', False),
      (''PVRTC1_4_RGBA'', ''pvrtc1-4bpp-rgba-unorm'', False),
      (''RGBA32'', ''rgba8unorm'', True),
      (''RGB565'', ''rgb565unorm'', True),
      (''RGBA4444'', ''rgba4unorm'', True)]"

definition alphaFormatPreference :: "string list" where
  "alphaFormatPreference =
     [''ETC2_RGBA'', ''BC7_M5_RGBA'', ''BC3_RGBA'', ''ASTC_4x4_RGBA'', ''PVRTC1_4_RGBA'',
      ''RGBA32'']"

definition opaqueFormatPreference :: "string list" where
  "opaqueFormatPreference =
     [''ETC1_RGB'', ''BC7_M5_RGBA'', ''BC1_RGB'', ''ETC2_RGBA'', ''ASTC_4x4_RGBA'',
      ''PVRTC1_4_RGB'', ''RGB565'', ''RGBA32'']"

text \<open>
  The loop of \<open>parseFile\<close> over a preference list, stopping at the first target whose
  canonical format is in the supported list; the result is the target and its format:
  \<^verbatim>\<open>for (const targetFormat of alphaFormatPreference) {
    const wttFormat = WTT_FORMAT_MAP[targetFormat];
    if (supportedFormats.indexOf(wttFormat.format) > -1) {
      format = wttFormat.format;
      transcodeFormat = ktx.TranscodeTarget[targetFormat];
      break; } }\<close>
\<close>

fun first_supported :: "string list \<Rightarrow> string list \<Rightarrow> error + (string \<times> string) option" where
  "first_supported [] supported = Inr None"
| "first_supported (targetFormat # rest) supported =
     (case map_of KTX_WTT_FORMAT_MAP targetFormat of
        None \<Rightarrow> Inl (TypeError ''Cannot read properties of undefined'')
      | Some (format, _) \<Rightarrow>
          if - 1 < indexOf supported format then Inr (Some (targetFormat, format))
          else first_supported rest supported)"

text \<open>
  The choice of the transcode target in \<open>parseFile\<close>, given \<open>ktxTexture.needsTranscoding\<close>
  and the list \<open>supportedFormats\<close>. The loop is over \<open>alphaFormatPreference\<close> whatever the texture
  holds; \<open>opaqueFormatPreference\<close> is read nowhere. The values of \<open>ktx.TranscodeTarget\<close> are
  objects of the codec library, hence truthy, so \<open>!transcodeFormat\<close> holds exactly when the
  loop found nothing.
\<close>

definition parseFile_target :: "bool \<Rightarrow> string list \<Rightarrow> error + string \<times> string" where
  "parseFile_target needsTranscoding supported =
     (if needsTranscoding then
        (case first_supported alphaFormatPreference supported of
           Inl err \<Rightarrow> Inl err
         | Inr None \<Rightarrow> Inl (Error ''No appropriate transcode format found.'')
         | Inr (Some found) \<Rightarrow> Inr found)
      else Inl (Error ''Uncompressed formats not yet supported.''))"

section \<open>Properties of the format negotiation\<close>

lemma indexOf_ge: "- 1 \<le> indexOf xs x"
  by (induction xs) (auto simp: Let_def)

lemma indexOf_absent: "indexOf xs x = - 1 \<longleftrightarrow> x \<notin> set xs"
proof (induction xs)
  case Nil
  show ?case by simp
next
  case (Cons y ys)
  have "- 1 \<le> indexOf ys x" by (rule indexOf_ge)
  then have "indexOf ys x + 1 \<noteq> - 1" by arith
  with Cons show ?case by (auto simp: Let_def)
qed

text \<open>
  Claim C1. For every requested canonical format \<open>F\<close> and supported-format list \<open>S\<close>, the
  negotiation of the browser-image loader returns \<open>F\<close> unchanged when \<open>F\<close> is a member of \<open>S\<close>
  and the baseline \<open>rgba8unorm\<close> when it is not; \<open>fromUrl\<close> and \<open>fromBlob\<close> both negotiate the
  format their MIME table requests in this way.
\<close>

theorem negotiateFormat_member_or_baseline:
  "(F \<in> set S \<longrightarrow> negotiateFormat S (Some F) = F) \<and>
   (F \<notin> set S \<longrightarrow> negotiateFormat S (Some F) = ''rgba8unorm'') \<and>
   (IMAGE_TEXTURE_FORMATS mime = Some F \<longrightarrow>
      ImageLoader_fromUrl_format S mime = negotiateFormat S (Some F) \<and>
      ImageLoader_fromBlob_format S mime = negotiateFormat S (Some F))"
  by (simp add: negotiateFormat_def indexOf_absent ImageLoader_fromUrl_format_def
      ImageLoader_fromBlob_format_def)

theorem negotiateFormat_member_or_baseline_witness:
  "''bgra8unorm'' \<in> set (supportedFormatList (WebGPUTextureClient_new \<lparr>features = None\<rparr>)) \<and>
   negotiateFormat (supportedFormatList (WebGPUTextureClient_new \<lparr>features = None\<rparr>)) (Some ''bgra8unorm'') = ''bgra8unorm'' \<and>
   ''rgb8unorm'' \<notin> set (supportedFormatList (WebGPUTextureClient_new \<lparr>features = None\<rparr>)) \<and>
   negotiateFormat (supportedFormatList (WebGPUTextureClient_new \<lparr>features = None\<rparr>)) (Some ''rgb8unorm'') = ''rgba8unorm'' \<and>
   IMAGE_TEXTURE_FORMATS ''image/jpeg'' = Some ''rgb8unorm'' \<and>
   ImageLoader_fromUrl_format (supportedFormatList (WebGPUTextureClient_new \<lparr>features = None\<rparr>)) ''image/jpeg'' = ''rgba8unorm''"
proof -
  have m: "''bgra8unorm'' \<in> set (supportedFormatList (WebGPUTextureClient_new \<lparr>features = None\<rparr>))"
    by (simp add: WebGPUTextureClient_new_def)
  have n: "''rgb8unorm'' \<notin> set (supportedFormatList (WebGPUTextureClient_new \<lparr>features = None\<rparr>))"
    by (simp add: WebGPUTextureClient_new_def)
  have j: "IMAGE_TEXTURE_FORMATS ''image/jpeg'' = Some ''rgb8unorm''"
    by (simp add: IMAGE_TEXTURE_FORMATS_def)
  from m n j
    negotiateFormat_member_or_baseline [of "''bgra8unorm''" "supportedFormatList (WebGPUTextureClient_new \<lparr>features = None\<rparr>)" "''image/jpeg''"]
    negotiateFormat_member_or_baseline [of "''rgb8unorm''" "supportedFormatList (WebGPUTextureClient_new \<lparr>features = None\<rparr>)" "''image/jpeg''"]
  show ?thesis by simp
qed

section \<open>Properties of the mip-chain length\<close>




section \<open>Properties of the worker pool\<close>

lemma selectWorker_pool:
  "workerPool (fst (snd (selectWorker this w))) =
     (if int (length (workerPool this)) \<le> outstandingRequests this + 1 \<and>
         length (workerPool this) < MAX_WORKER_POOL_SIZE
      then workerPool this @ [workersCreated w] else workerPool this)"
  by (simp add: selectWorker_def addWorker_def Let_def)

lemma dispatch_pool:
  "workerPool (fst (snd (dispatch this w e t r))) =
     workerPool (fst (snd (selectWorker this (w\<lparr>nextPendingTextureId := nextPendingTextureId w + 1\<rparr>))))"
  by (simp add: dispatch_def Let_def split: prod.splits option.splits)

lemma onmessage_pool:
  "workerPool (fst (snd (onmessage f a this w))) = workerPool this"
  by (simp add: onmessage_def split: prod.splits sum.splits)

lemma destroy_pool:
  "workerPool (fst (snd (WorkerLoader_destroy this w))) = workerPool this"
  by (simp add: WorkerLoader_destroy_def split: option.splits)

lemma step_pool_cases:
  "workerPool (fst (step ev s)) = workerPool (fst s) \<or>
   (length (workerPool (fst s)) < MAX_WORKER_POOL_SIZE \<and>
    (\<exists>e. workerPool (fst (step ev s)) = workerPool (fst s) @ [e]))"
proof (cases s)
  case (Pair this w)
  then show ?thesis
    by (cases ev) (auto simp: selectWorker_pool dispatch_pool onmessage_pool destroy_pool)
qed

lemma step_length_mono: "length (workerPool (fst s)) \<le> length (workerPool (fst (step ev s)))"
  using step_pool_cases [of ev s] by auto

lemma step_length_bound:
  "length (workerPool (fst s)) \<le> MAX_WORKER_POOL_SIZE \<Longrightarrow>
   length (workerPool (fst (step ev s))) \<le> MAX_WORKER_POOL_SIZE"
  using step_pool_cases [of ev s] by auto

lemma run_length_mono: "length (workerPool (fst s)) \<le> length (workerPool (fst (run evs s)))"
proof (induction evs arbitrary: s)
  case Nil
  show ?case by simp
next
  case (Cons ev evs)
  have "length (workerPool (fst s)) \<le> length (workerPool (fst (step ev s)))"
    by (rule step_length_mono)
  also have "\<dots> \<le> length (workerPool (fst (run evs (step ev s))))"
    by (rule Cons.IH)
  finally show ?case by simp
qed

lemma run_length_bound:
  "length (workerPool (fst s)) \<le> MAX_WORKER_POOL_SIZE \<Longrightarrow>
   length (workerPool (fst (run evs s))) \<le> MAX_WORKER_POOL_SIZE"
proof (induction evs arbitrary: s)
  case Nil
  then show ?case by simp
next
  case (Cons ev evs)
  from Cons.prems have "length (workerPool (fst (step ev s))) \<le> MAX_WORKER_POOL_SIZE"
    by (rule step_length_bound)
  then have "length (workerPool (fst (run evs (step ev s)))) \<le> MAX_WORKER_POOL_SIZE"
    by (rule Cons.IH)
  then show ?case by simp
qed

lemma run_append: "run (xs @ ys) s = run ys (run xs s)"
  by (induction xs arbitrary: s) auto

lemma WorkerLoader_new_pool:
  "workerPool (fst (WorkerLoader_new H e w)) = [workersCreated w]"
  by (simp add: WorkerLoader_new_def addWorker_def Let_def)


lemma selectWorker_grow:
  assumes "int (length (workerPool this)) \<le> outstandingRequests this + 1"
    and "length (workerPool this) < MAX_WORKER_POOL_SIZE"
  shows "selectWorker this w =
     (Some (workersCreated w),
      this\<lparr>outstandingRequests := outstandingRequests this + 1,
           workerPool := workerPool this @ [workersCreated w]\<rparr>,
      w\<lparr>workersCreated := Suc (workersCreated w),
        effects := effects w @ [NewWorker (workerPath this) (workersCreated w)]\<rparr>)"
  using assms by (simp add: selectWorker_def addWorker_def Let_def)

lemma selectWorker_round_robin:
  assumes "\<not> (int (length (workerPool this)) \<le> outstandingRequests this + 1 \<and>
             length (workerPool this) < MAX_WORKER_POOL_SIZE)"
    and "workerPool this \<noteq> []"
  shows "selectWorker this w =
     (Some (workerPool this ! (nextWorker this mod length (workerPool this))),
      this\<lparr>outstandingRequests := outstandingRequests this + 1,
           nextWorker := nextWorker this + 1\<rparr>,
      w)"
  using assms by (auto simp: selectWorker_def Let_def)

text \<open>
  Claim C3. Take a pool as its constructor builds it and let any sequence of calls and worker
  messages happen to it. The pool then holds between 1 and 4 workers and has never been
  larger than it is now (its size never decreases). The next \<open>selectWorker()\<close> instantiates a
  new worker, appends it and returns it exactly when the incremented outstanding-request
  counter is at least the pool size and the pool size is below 4; otherwise it leaves the
  pool as it is and returns the worker at index \<open>nextWorker mod poolSize\<close>, incrementing the
  cursor.
\<close>

theorem selectWorker_pool_bounded:
  fixes H path w_init evs
  defines "s0 \<equiv> WorkerLoader_new H path w_init"
  defines "s \<equiv> run evs s0"
  defines "pool \<equiv> workerPool (fst s)"
  defines "grow \<equiv> int (length pool) \<le> outstandingRequests (fst s) + 1 \<and> length pool < 4"
  shows "1 \<le> length pool \<and> length pool \<le> 4 \<and>
         (\<forall>k. length (workerPool (fst (run (take k evs) s0))) \<le> length pool) \<and>
         (grow \<longrightarrow>
            selectWorker (fst s) (snd s) =
              (Some (workersCreated (snd s)),
               (fst s)\<lparr>outstandingRequests := outstandingRequests (fst s) + 1,
                         workerPool := pool @ [workersCreated (snd s)]\<rparr>,
               (snd s)\<lparr>workersCreated := Suc (workersCreated (snd s)),
                         effects := effects (snd s) @
                           [NewWorker (workerPath (fst s)) (workersCreated (snd s))]\<rparr>)) \<and>
         (\<not> grow \<longrightarrow>
            selectWorker (fst s) (snd s) =
              (Some (pool ! (nextWorker (fst s) mod length pool)),
               (fst s)\<lparr>outstandingRequests := outstandingRequests (fst s) + 1,
                         nextWorker := nextWorker (fst s) + 1\<rparr>,
               snd s))"
proof -
  have one: "length (workerPool (fst s0)) = 1"
    by (simp add: s0_def WorkerLoader_new_pool)
  have lo: "1 \<le> length pool"
    using run_length_mono [of s0 evs] one by (simp add: pool_def s_def)
  have hi: "length pool \<le> 4"
    using run_length_bound [of s0 evs] one by (simp add: pool_def s_def MAX_WORKER_POOL_SIZE_def)
  have mono: "length (workerPool (fst (run (take k evs) s0))) \<le> length pool" for k
  proof -
    have "run evs s0 = run (drop k evs) (run (take k evs) s0)"
      by (simp add: run_append [symmetric])
    then show ?thesis
      using run_length_mono [of "run (take k evs) s0" "drop k evs"] by (simp add: pool_def s_def)
  qed
  have g: "selectWorker (fst s) (snd s) =
              (Some (workersCreated (snd s)),
               (fst s)\<lparr>outstandingRequests := outstandingRequests (fst s) + 1,
                         workerPool := pool @ [workersCreated (snd s)]\<rparr>,
               (snd s)\<lparr>workersCreated := Suc (workersCreated (snd s)),
                         effects := effects (snd s) @
                           [NewWorker (workerPath (fst s)) (workersCreated (snd s))]\<rparr>)" if grow
    using that selectWorker_grow [of "fst s" "snd s"]
    by (simp add: grow_def pool_def MAX_WORKER_POOL_SIZE_def)
  have r: "selectWorker (fst s) (snd s) =
              (Some (pool ! (nextWorker (fst s) mod length pool)),
               (fst s)\<lparr>outstandingRequests := outstandingRequests (fst s) + 1,
                         nextWorker := nextWorker (fst s) + 1\<rparr>,
               snd s)" if "\<not> grow"
  proof -
    from lo have "workerPool (fst s) \<noteq> []" by (auto simp: pool_def)
    with that show ?thesis
      using selectWorker_round_robin [of "fst s" "snd s"]
      by (simp add: grow_def pool_def MAX_WORKER_POOL_SIZE_def)
  qed
  from lo hi mono g r show ?thesis by blast
qed

theorem selectWorker_pool_bounded_witness:
  "length (workerPool (fst (run [CallSelectWorker, CallSelectWorker, CallSelectWorker]
      (WorkerLoader_new ''/'' ''w.js'' initial_world)))) = 4 \<and>
   fst (selectWorker
     (fst (run [CallSelectWorker, CallSelectWorker, CallSelectWorker]
        (WorkerLoader_new ''/'' ''w.js'' initial_world)))
     (snd (run [CallSelectWorker, CallSelectWorker, CallSelectWorker]
        (WorkerLoader_new ''/'' ''w.js'' initial_world)))) = Some 0 \<and>
   length (workerPool (fst (run [] (WorkerLoader_new ''/'' ''w.js'' initial_world)))) = 1 \<and>
   selectWorker
     (fst (run [] (WorkerLoader_new ''/'' ''w.js'' initial_world)))
     (snd (run [] (WorkerLoader_new ''/'' ''w.js'' initial_world))) =
     (Some 1,
      \<lparr>workerPath = ''/w.js'', workerPool = [0, 1], nextWorker = 0, outstandingRequests = 1,
       worker = None\<rparr>,
      initial_world\<lparr>workersCreated := 2,
        effects := [NewWorker ''/w.js'' 0, NewWorker ''/w.js'' 1]\<rparr>)"
proof -
  have e3: "run [CallSelectWorker, CallSelectWorker, CallSelectWorker]
      (WorkerLoader_new ''/'' ''w.js'' initial_world) =
    (\<lparr>workerPath = ''/w.js'', workerPool = [0, 1, 2, 3], nextWorker = 0,
      outstandingRequests = 3, worker = None\<rparr>,
     initial_world\<lparr>workersCreated := 4,
       effects := [NewWorker ''/w.js'' 0, NewWorker ''/w.js'' 1, NewWorker ''/w.js'' 2,
         NewWorker ''/w.js'' 3]\<rparr>)"
    by (simp add: WorkerLoader_new_def addWorker_def selectWorker_def initial_world_def
        MAX_WORKER_POOL_SIZE_def Let_def)
  have e0: "run [] (WorkerLoader_new ''/'' ''w.js'' initial_world) =
    (\<lparr>workerPath = ''/w.js'', workerPool = [0], nextWorker = 0,
      outstandingRequests = 0, worker = None\<rparr>,
     initial_world\<lparr>workersCreated := 1, effects := [NewWorker ''/w.js'' 0]\<rparr>)"
    by (simp add: WorkerLoader_new_def addWorker_def initial_world_def Let_def)
  from selectWorker_pool_bounded [of "[CallSelectWorker, CallSelectWorker, CallSelectWorker]"
      "''/''" "''w.js''" initial_world]
    selectWorker_pool_bounded [of "[]" "''/''" "''w.js''" initial_world]
  show ?thesis
    unfolding e3 e0 by (simp add: initial_world_def)
qed



section \<open>Properties of the bookkeeping\<close>

lemma posted_ids_append [simp]: "posted_ids (xs @ ys) = posted_ids xs @ posted_ids ys"
  by (simp add: posted_ids_def)

lemma deleted_ids_append [simp]: "deleted_ids (xs @ ys) = deleted_ids xs @ deleted_ids ys"
  by (simp add: deleted_ids_def)

lemma posted_ids_simps [simp]:
  "posted_ids [] = []"
  "posted_ids (PostMessage wk m # es) = req_id m # posted_ids es"
  "posted_ids (NewWorker pth wk # es) = posted_ids es"
  "posted_ids (SetPending i # es) = posted_ids es"
  "posted_ids (DeletePending i # es) = posted_ids es"
  "posted_ids (Terminate wk # es) = posted_ids es"
  "posted_ids (Resolve i # es) = posted_ids es"
  "posted_ids (Reject i msg # es) = posted_ids es"
  "posted_ids (ConsoleError msg # es) = posted_ids es"
  by (simp_all add: posted_ids_def)

lemma deleted_ids_simps [simp]:
  "deleted_ids [] = []"
  "deleted_ids (PostMessage wk m # es) = deleted_ids es"
  "deleted_ids (NewWorker pth wk # es) = deleted_ids es"
  "deleted_ids (SetPending i # es) = deleted_ids es"
  "deleted_ids (DeletePending i # es) = i # deleted_ids es"
  "deleted_ids (Terminate wk # es) = deleted_ids es"
  "deleted_ids (Resolve i # es) = deleted_ids es"
  "deleted_ids (Reject i msg # es) = deleted_ids es"
  "deleted_ids (ConsoleError msg # es) = deleted_ids es"
  by (simp_all add: deleted_ids_def)

lemma selectWorker_world:
  "snd (snd (selectWorker this w)) =
     (if int (length (workerPool this)) \<le> outstandingRequests this + 1 \<and>
         length (workerPool this) < MAX_WORKER_POOL_SIZE
      then w\<lparr>workersCreated := Suc (workersCreated w),
             effects := effects w @ [NewWorker (workerPath this) (workersCreated w)]\<rparr>
      else w)"
  by (simp add: selectWorker_def addWorker_def Let_def)

lemma world_inv_initial: "world_inv initial_world"
  by (simp add: world_inv_def initial_world_def)

lemma world_inv_selectWorker:
  assumes "world_inv w"
  shows "world_inv (snd (snd (selectWorker this w)))"
  using assms unfolding selectWorker_world by (simp add: world_inv_def)

lemma dispatch_unfold:
  "dispatch this w e t r =
     (let i = nextPendingTextureId w;
          sel = selectWorker this (w\<lparr>nextPendingTextureId := i + 1\<rparr>);
          w2 = snd (snd sel)
      in case fst sel of
           None \<Rightarrow> (Inl (TypeError ''Cannot read properties of undefined''), fst (snd sel), w2)
         | Some wk \<Rightarrow>
             (Inr i, fst (snd sel),
              w2\<lparr>pendingTextures := (pendingTextures w2)(i \<mapsto> \<lparr>client = e, options = r\<rparr>),
                 effects := effects w2 @
                   [PostMessage wk \<lparr>req_id = i, req_source = t,
                      req_supportedFormats = supportedFormats e,
                      req_mipmaps = mipmaps r, req_extension = extension r\<rparr>,
                    SetPending i]\<rparr>))"
  by (simp add: dispatch_def Let_def split: prod.splits option.splits)

lemma selectWorker_worker_in_pool:
  "fst (selectWorker this w) = Some wk \<Longrightarrow> wk \<in> set (workerPool (fst (snd (selectWorker this w))))"
  by (auto simp: selectWorker_def addWorker_def Let_def split: if_splits)

lemma selectWorker_effects:
  "posted_ids (effects (snd (snd (selectWorker this w)))) = posted_ids (effects w) \<and>
   deleted_ids (effects (snd (snd (selectWorker this w)))) = deleted_ids (effects w) \<and>
   pendingTextures (snd (snd (selectWorker this w))) = pendingTextures w \<and>
   nextPendingTextureId (snd (snd (selectWorker this w))) = nextPendingTextureId w \<and>
   (\<exists>pre. effects (snd (snd (selectWorker this w))) = effects w @ pre \<and>
      (pre = [] \<or> pre = [NewWorker (workerPath this) (workersCreated w)]))"
  by (simp add: selectWorker_world)

lemma world_inv_next:
  "world_inv w \<Longrightarrow> world_inv (w\<lparr>nextPendingTextureId := nextPendingTextureId w + 1\<rparr>)"
  by (fastforce simp: world_inv_def less_Suc_eq)

lemma world_inv_record:
  assumes "world_inv w2" and "i < nextPendingTextureId w2" and "req_id m = i"
  shows "world_inv (w2\<lparr>pendingTextures := (pendingTextures w2)(i \<mapsto> x),
                      effects := effects w2 @ [PostMessage wk m, SetPending i]\<rparr>)"
  using assms by (auto simp: world_inv_def)

lemma world_inv_dispatch:
  assumes "world_inv w"
  shows "world_inv (snd (snd (dispatch this w e t r)))"
proof -
  let ?w1 = "w\<lparr>nextPendingTextureId := nextPendingTextureId w + 1\<rparr>"
  let ?sel = "selectWorker this ?w1"
  let ?w2 = "snd (snd ?sel)"
  from assms have "world_inv ?w1" by (rule world_inv_next)
  then have w2: "world_inv ?w2" by (rule world_inv_selectWorker)
  have n2: "nextPendingTextureId w < nextPendingTextureId ?w2"
    using selectWorker_effects [of this ?w1] by simp
  show ?thesis
  proof (cases "fst ?sel")
    case None
    with w2 show ?thesis by (simp add: dispatch_unfold Let_def)
  next
    case (Some wk)
    have "world_inv (?w2\<lparr>pendingTextures :=
              (pendingTextures ?w2)(nextPendingTextureId w \<mapsto> \<lparr>client = e, options = r\<rparr>),
            effects := effects ?w2 @
              [PostMessage wk \<lparr>req_id = nextPendingTextureId w, req_source = t,
                 req_supportedFormats = supportedFormats e,
                 req_mipmaps = mipmaps r, req_extension = extension r\<rparr>,
               SetPending (nextPendingTextureId w)]\<rparr>)"
      by (rule world_inv_record [OF w2 n2]) simp
    with Some show ?thesis
      by (simp add: dispatch_unfold Let_def)
  qed
qed

lemma onWorkerMessage_world:
  "\<exists>post. snd (onWorkerMessage f a w) =
       (case pendingTextures w (resp_id a) of
          None \<Rightarrow> w\<lparr>effects := effects w @ post\<rparr>
        | Some e \<Rightarrow> w\<lparr>pendingTextures := (pendingTextures w)(resp_id a := None),
                      effects := effects w @ [DeletePending (resp_id a)] @ post\<rparr>) \<and>
     posted_ids post = [] \<and> deleted_ids post = []"
  by (cases "pendingTextures w (resp_id a)")
     (auto simp: onWorkerMessage_def Let_def split: sum.splits)

lemma world_inv_onWorkerMessage:
  assumes "world_inv w"
  shows "world_inv (snd (onWorkerMessage f a w))"
proof -
  from onWorkerMessage_world [of f a w] obtain post where
    w': "snd (onWorkerMessage f a w) =
       (case pendingTextures w (resp_id a) of
          None \<Rightarrow> w\<lparr>effects := effects w @ post\<rparr>
        | Some e \<Rightarrow> w\<lparr>pendingTextures := (pendingTextures w)(resp_id a := None),
                      effects := effects w @ [DeletePending (resp_id a)] @ post\<rparr>)"
    and post: "posted_ids post = []" "deleted_ids post = []"
    by blast
  show ?thesis
  proof (cases "pendingTextures w (resp_id a)")
    case None
    with assms post show ?thesis unfolding w' by (simp add: world_inv_def)
  next
    case (Some e)
    with assms post show ?thesis unfolding w' by (auto simp: world_inv_def)
  qed
qed

lemma onmessage_world: "snd (snd (onmessage f a this w)) = snd (onWorkerMessage f a w)"
  by (simp add: onmessage_def split: prod.splits sum.splits)

lemma world_inv_destroy:
  assumes "world_inv w"
  shows "world_inv (snd (snd (WorkerLoader_destroy this w)))"
  using assms by (simp add: WorkerLoader_destroy_def world_inv_def split: option.splits)

lemma world_inv_step: "world_inv (snd s) \<Longrightarrow> world_inv (snd (step ev s))"
proof (cases s)
  case (Pair this w)
  assume "world_inv (snd s)"
  with Pair show ?thesis
    by (cases ev)
       (simp_all add: world_inv_selectWorker world_inv_dispatch world_inv_destroy
          onmessage_world world_inv_onWorkerMessage)
qed

lemma world_inv_run: "world_inv (snd s) \<Longrightarrow> world_inv (snd (run evs s))"
proof (induction evs arbitrary: s)
  case Nil
  then show ?case by simp
next
  case (Cons ev evs)
  from Cons.prems have "world_inv (snd (step ev s))" by (rule world_inv_step)
  then have "world_inv (snd (run evs (step ev s)))" by (rule Cons.IH)
  then show ?case by simp
qed


lemma kept_selectWorker: "kept i x w \<Longrightarrow> kept i x (snd (snd (selectWorker this w)))"
  using selectWorker_effects [of this w] by (simp add: kept_def)

lemma kept_dispatch:
  assumes "kept i x w"
  shows "kept i x (snd (snd (dispatch this w e t r)))"
proof -
  let ?w1 = "w\<lparr>nextPendingTextureId := nextPendingTextureId w + 1\<rparr>"
  let ?sel = "selectWorker this ?w1"
  from assms have "kept i x ?w1" by (simp add: kept_def)
  then have k2: "kept i x (snd (snd ?sel))" by (rule kept_selectWorker)
  from assms have ne: "i \<noteq> nextPendingTextureId w" by (simp add: kept_def)
  show ?thesis
  proof (cases "fst ?sel")
    case None
    with k2 show ?thesis by (simp add: dispatch_unfold Let_def)
  next
    case (Some wk)
    with k2 ne show ?thesis by (simp add: dispatch_unfold Let_def kept_def)
  qed
qed

lemma kept_onWorkerMessage:
  assumes "kept i x w"
  shows "kept i x (snd (onWorkerMessage f a w))"
proof -
  from onWorkerMessage_world [of f a w] obtain post where
    w': "snd (onWorkerMessage f a w) =
       (case pendingTextures w (resp_id a) of
          None \<Rightarrow> w\<lparr>effects := effects w @ post\<rparr>
        | Some e \<Rightarrow> w\<lparr>pendingTextures := (pendingTextures w)(resp_id a := None),
                      effects := effects w @ [DeletePending (resp_id a)] @ post\<rparr>)"
    and post: "posted_ids post = []" "deleted_ids post = []"
    by blast
  show ?thesis
  proof (cases "pendingTextures w (resp_id a)")
    case None
    with assms post show ?thesis unfolding w' by (simp add: kept_def)
  next
    case (Some e)
    with assms post show ?thesis unfolding w' by (auto simp: kept_def)
  qed
qed

lemma kept_destroy: "kept i x w \<Longrightarrow> kept i x (snd (snd (WorkerLoader_destroy this w)))"
  by (simp add: WorkerLoader_destroy_def kept_def split: option.splits)

lemma kept_step: "kept i x (snd s) \<Longrightarrow> kept i x (snd (step ev s))"
proof (cases s)
  case (Pair this w)
  assume "kept i x (snd s)"
  with Pair show ?thesis
    by (cases ev)
       (simp_all add: kept_selectWorker kept_dispatch kept_destroy onmessage_world
          kept_onWorkerMessage)
qed

lemma kept_run: "kept i x (snd s) \<Longrightarrow> kept i x (snd (run evs s))"
proof (induction evs arbitrary: s)
  case Nil
  then show ?case by simp
next
  case (Cons ev evs)
  from Cons.prems have "kept i x (snd (step ev s))" by (rule kept_step)
  then have "kept i x (snd (run evs (step ev s)))" by (rule Cons.IH)
  then show ?case by simp
qed

lemma world_inv_fresh:
  assumes "world_inv w"
  shows "pendingTextures w (nextPendingTextureId w) = None"
    and "nextPendingTextureId w \<notin> set (posted_ids (effects w))"
proof -
  show "pendingTextures w (nextPendingTextureId w) = None"
  proof (rule ccontr)
    assume "pendingTextures w (nextPendingTextureId w) \<noteq> None"
    then have "nextPendingTextureId w \<in> dom (pendingTextures w)" by auto
    with assms have "nextPendingTextureId w < nextPendingTextureId w"
      unfolding world_inv_def by blast
    then show False by simp
  qed
  show "nextPendingTextureId w \<notin> set (posted_ids (effects w))"
  proof
    assume "nextPendingTextureId w \<in> set (posted_ids (effects w))"
    with assms have "nextPendingTextureId w < nextPendingTextureId w"
      unfolding world_inv_def by blast
    then show False by simp
  qed
qed

text \<open>
  Claim C6, as the code has it. Every dispatched request gets a fresh correlation id (the
  value of the id counter, which no table entry and no earlier message carries). The request
  is first posted to the selected worker and then, in the same call and with nothing in
  between, stored in the table under that id. Calls and message handlers run one at a time,
  so at every later moment the table still holds the request under its id until a response
  for that id has been handled: no response is handled before its bookkeeping exists.
\<close>

theorem dispatch_posts_then_records:
  assumes inv: "world_inv w"
    and d: "dispatch this w e t r = (Inr i, this', w')"
  shows "i = nextPendingTextureId w \<and> nextPendingTextureId w' = i + 1 \<and>
         pendingTextures w i = None \<and> i \<notin> set (posted_ids (effects w)) \<and>
         (\<exists>pre wk. wk \<in> set (workerPool this') \<and>
            (pre = [] \<or> pre = [NewWorker (workerPath this) wk]) \<and>
            effects w' = effects w @ pre @
              [PostMessage wk \<lparr>req_id = i, req_source = t,
                 req_supportedFormats = supportedFormats e,
                 req_mipmaps = mipmaps r, req_extension = extension r\<rparr>,
               SetPending i]) \<and>
         pendingTextures w' = (pendingTextures w)(i \<mapsto> \<lparr>client = e, options = r\<rparr>) \<and>
         (\<forall>evs. world_inv (snd (run evs (this', w'))) \<and>
                kept i \<lparr>client = e, options = r\<rparr> (snd (run evs (this', w'))))"
proof -
  let ?w1 = "w\<lparr>nextPendingTextureId := nextPendingTextureId w + 1\<rparr>"
  let ?sel = "selectWorker this ?w1"
  let ?w2 = "snd (snd ?sel)"
  let ?m = "\<lparr>req_id = nextPendingTextureId w, req_source = t,
             req_supportedFormats = supportedFormats e,
             req_mipmaps = mipmaps r, req_extension = extension r\<rparr>"
  from d obtain wk where sel: "fst ?sel = Some wk"
    by (cases "fst ?sel") (simp_all add: dispatch_unfold Let_def)
  from d sel have i: "i = nextPendingTextureId w" and this': "this' = fst (snd ?sel)"
    and w': "w' = ?w2\<lparr>pendingTextures :=
                  (pendingTextures ?w2)(nextPendingTextureId w \<mapsto> \<lparr>client = e, options = r\<rparr>),
                effects := effects ?w2 @ [PostMessage wk ?m, SetPending (nextPendingTextureId w)]\<rparr>"
    by (auto simp: dispatch_unfold Let_def)
  from selectWorker_effects [of this ?w1] obtain pre where
    p2: "pendingTextures ?w2 = pendingTextures w"
    and n2: "nextPendingTextureId ?w2 = nextPendingTextureId w + 1"
    and e2: "effects ?w2 = effects w @ pre"
    and pre: "pre = [] \<or> pre = [NewWorker (workerPath this) (workersCreated ?w1)]"
    by auto
  have wk_in: "wk \<in> set (workerPool this')"
    using selectWorker_worker_in_pool [OF sel] this' by simp
  have pre': "pre = [] \<or> pre = [NewWorker (workerPath this) wk]"
  proof (cases "pre = []")
    case True
    then show ?thesis by simp
  next
    case False
    with pre e2 have "effects ?w2 \<noteq> effects w" by simp
    then have "fst ?sel = Some (workersCreated ?w1)"
      by (auto simp: selectWorker_def addWorker_def Let_def split: if_splits)
    with sel pre False show ?thesis by simp
  qed
  have eff: "effects w' = effects w @ pre @ [PostMessage wk ?m, SetPending (nextPendingTextureId w)]"
    using e2 by (simp add: w')
  have tab: "pendingTextures w' =
      (pendingTextures w)(nextPendingTextureId w \<mapsto> \<lparr>client = e, options = r\<rparr>)"
    using p2 by (simp add: w')
  have nx: "nextPendingTextureId w' = nextPendingTextureId w + 1"
    using n2 by (simp add: w')
  have inv': "world_inv w'"
    using world_inv_dispatch [OF inv, of this e t r] d by simp
  have k: "kept (nextPendingTextureId w) \<lparr>client = e, options = r\<rparr> w'"
    by (simp add: kept_def nx tab)
  have later: "world_inv (snd (run evs (this', w'))) \<and>
      kept (nextPendingTextureId w) \<lparr>client = e, options = r\<rparr> (snd (run evs (this', w')))" for evs
    using world_inv_run [of "(this', w')" evs] kept_run [of _ _ "(this', w')" evs] inv' k by simp
  from world_inv_fresh [OF inv] wk_in pre' eff tab nx later show ?thesis
    unfolding i by blast
qed

theorem dispatch_posts_then_records_witness:
  "world_inv (snd example_pool) \<and>
   dispatch (fst example_pool) (snd example_pool) example_client (Url ''a.basis'')
     example_options = (Inr 1, fst example_pool_pending, snd example_pool_pending) \<and>
   pendingTextures (snd example_pool_pending) 1 =
     Some \<lparr>client = example_client, options = example_options\<rparr> \<and>
   kept 1 \<lparr>client = example_client, options = example_options\<rparr>
     (snd (run [CallSelectWorker] (fst example_pool_pending, snd example_pool_pending)))"
proof -
  have inv: "world_inv (snd example_pool)"
    by (simp add: example_pool_def WorkerLoader_new_def addWorker_def Let_def
        initial_world_def world_inv_def)
  have d: "dispatch (fst example_pool) (snd example_pool) example_client (Url ''a.basis'')
     example_options = (Inr 1, fst example_pool_pending, snd example_pool_pending)"
    by (simp add: example_pool_pending_def WorkerLoader_fromUrl_def example_pool_def
        WorkerLoader_new_def addWorker_def Let_def initial_world_def dispatch_def
        selectWorker_def MAX_WORKER_POOL_SIZE_def)
  note t = dispatch_posts_then_records [OF inv d]
  from t have tab: "pendingTextures (snd example_pool_pending) =
      (pendingTextures (snd example_pool))
        (1 \<mapsto> \<lparr>client = example_client, options = example_options\<rparr>)"
    by blast
  from t have "\<forall>evs. kept 1 \<lparr>client = example_client, options = example_options\<rparr>
      (snd (run evs (fst example_pool_pending, snd example_pool_pending)))"
    by blast
  then have "kept 1 \<lparr>client = example_client, options = example_options\<rparr>
      (snd (run [CallSelectWorker] (fst example_pool_pending, snd example_pool_pending)))"
    by (rule spec)
  with inv d tab show ?thesis by simp
qed

text \<open>
  The claim as worded fails: the request is stored after the message is posted, not before.
\<close>

theorem dispatch_records_first_counterexample:
  "effects (snd example_pool_pending) =
     [NewWorker ''/workers/basis/basis-worker.js'' 0,
      NewWorker ''/workers/basis/basis-worker.js'' 1,
      PostMessage 1
        \<lparr>req_id = 1, req_source = Url ''a.basis'',
         req_supportedFormats =
           [''rgba8unorm'', ''rgba8unorm-srgb'', ''bgra8unorm'', ''bgra8unorm-srgb''],
         req_mipmaps = True, req_extension = None\<rparr>,
      SetPending 1] \<and>
   \<not> recorded_before_posted 1 (effects (snd example_pool_pending))"
  by (simp add: example_pool_pending_def WorkerLoader_fromUrl_def example_pool_def
      WorkerLoader_new_def addWorker_def Let_def initial_world_def dispatch_def
      selectWorker_def MAX_WORKER_POOL_SIZE_def example_client_def example_options_def
      WebGPUTextureClient_new_def supportedFormats_def)

section \<open>Properties of destroying a pool\<close>





section \<open>Properties of the texture data model\<close>

lemma array_get_set_same: "array_get (array_set xs i v) i = Some v"
  by (simp add: array_get_def array_set_def nth_append)

lemma array_get_set_other: "k \<noteq> i \<Longrightarrow> array_get (array_set xs i v) k = array_get xs k"
  by (auto simp: array_get_def array_set_def nth_append nth_Cons')

lemma setSlice_defined:
  "array_get (slices lvl) e \<noteq> None \<Longrightarrow>
   setSlice lvl e t r = Inl (Error ''Cannot define an image slice twice.'')"
  by (simp add: setSlice_def)

lemma setSlice_fresh:
  assumes "array_get (slices lvl) e = None"
  shows "\<exists>sl. setSlice lvl e t r = Inr (lvl\<lparr>slices := array_set (slices lvl) e sl\<rparr>)"
  using assms by (cases t) (auto simp: setSlice_def Let_def)

lemma getLevel_existing:
  "array_get (levels data) l = Some lvl \<Longrightarrow> getLevel data l ro = (lvl, data)"
  by (simp add: getLevel_def)

text \<open>
  Claim C8. On every mip level, setting a slice at an index that is already set fails with
  the error \<open>Cannot define an image slice twice.\<close>; the level and the texture data holding it
  are left as they were, and a caller that goes on to upload the data does not get there: no
  call reaches the device. A slice index not yet set can be set, other indices are untouched,
  and setting the same index again fails: each index can be set exactly once.
\<close>

theorem setSlice_at_most_once:
  "(array_get (slices lvl) e \<noteq> None \<longrightarrow>
      setSlice lvl e t r = Inl (Error ''Cannot define an image slice twice.'') \<and>
      (array_get (levels data) l = Some lvl \<longrightarrow>
         WebTextureData_setSlice data l e t r =
           (Inl (Error ''Cannot define an image slice twice.''), data) \<and>
         setSlice_then_upload cl g data l e t r opts =
           (Inl (Error ''Cannot define an image slice twice.''), cl, g))) \<and>
   (array_get (slices lvl) e = None \<longrightarrow>
      (\<exists>lvl'. setSlice lvl e t r = Inr lvl' \<and>
         array_get (slices lvl') e \<noteq> None \<and>
         (\<forall>k. k \<noteq> e \<longrightarrow> array_get (slices lvl') k = array_get (slices lvl) k) \<and>
         setSlice lvl' e t2 r2 = Inl (Error ''Cannot define an image slice twice.'')))"
proof (intro conjI impI)
  assume d: "array_get (slices lvl) e \<noteq> None"
  then show f: "setSlice lvl e t r = Inl (Error ''Cannot define an image slice twice.'')"
    by (rule setSlice_defined)
  assume "array_get (levels data) l = Some lvl"
  then have gl: "getLevel data l \<lparr>opt_width = None, opt_height = None\<rparr> = (lvl, data)"
    by (rule getLevel_existing)
  with f show w: "WebTextureData_setSlice data l e t r =
           (Inl (Error ''Cannot define an image slice twice.''), data)"
    by (simp add: WebTextureData_setSlice_def)
  then show "setSlice_then_upload cl g data l e t r opts =
           (Inl (Error ''Cannot define an image slice twice.''), cl, g)"
    by (simp add: setSlice_then_upload_def)
next
  assume "array_get (slices lvl) e = None"
  from setSlice_fresh [OF this, of t r] obtain sl
    where s: "setSlice lvl e t r = Inr (lvl\<lparr>slices := array_set (slices lvl) e sl\<rparr>)"
    by blast
  let ?lvl' = "lvl\<lparr>slices := array_set (slices lvl) e sl\<rparr>"
  have a: "array_get (slices ?lvl') e \<noteq> None"
    by (simp add: array_get_set_same)
  have b: "\<forall>k. k \<noteq> e \<longrightarrow> array_get (slices ?lvl') k = array_get (slices lvl) k"
    by (simp add: array_get_set_other)
  have c: "setSlice ?lvl' e t2 r2 = Inl (Error ''Cannot define an image slice twice.'')"
    using a by (rule setSlice_defined)
  from s a b c show "\<exists>lvl'. setSlice lvl e t r = Inr lvl' \<and>
         array_get (slices lvl') e \<noteq> None \<and>
         (\<forall>k. k \<noteq> e \<longrightarrow> array_get (slices lvl') k = array_get (slices lvl) k) \<and>
         setSlice lvl' e t2 r2 = Inl (Error ''Cannot define an image slice twice.'')"
    by blast
qed

theorem setSlice_at_most_once_witness:
  "array_get (slices example_level) 0 = None \<and>
   setSlice example_level 0 (ArrayBuffer [1, 2, 3, 4])
     \<lparr>opt_byteOffset = None, opt_byteLength = None\<rparr> = Inr example_level_defined \<and>
   array_get (slices example_level_defined) 0 \<noteq> None \<and>
   array_get (levels (example_data example_level_defined)) 0 = Some example_level_defined \<and>
   setSlice example_level_defined 0 (ArrayBuffer [9])
     \<lparr>opt_byteOffset = None, opt_byteLength = None\<rparr> =
     Inl (Error ''Cannot define an image slice twice.'') \<and>
   setSlice_then_upload (WebGPUTextureClient_new \<lparr>features = None\<rparr>) empty_gpu
     (example_data example_level_defined) 0 0 (ArrayBuffer [9])
     \<lparr>opt_byteOffset = None, opt_byteLength = None\<rparr>
     \<lparr>tex_mipmaps = False, tex_colorSpace = None\<rparr> =
     (Inl (Error ''Cannot define an image slice twice.''),
      WebGPUTextureClient_new \<lparr>features = None\<rparr>, empty_gpu)"
proof -
  have fresh: "array_get (slices example_level) 0 = None"
    by (simp add: example_level_def WebTextureLevelData_new_def array_get_def)
  have first: "setSlice example_level 0 (ArrayBuffer [1, 2, 3, 4])
      \<lparr>opt_byteOffset = None, opt_byteLength = None\<rparr> = Inr example_level_defined"
    using fresh
    by (simp add: setSlice_def example_level_defined_def or_else_def array_set_def
        example_level_def WebTextureLevelData_new_def)
  have set: "array_get (slices example_level_defined) 0 \<noteq> None"
    by (simp add: example_level_defined_def array_get_def)
  have held: "array_get (levels (example_data example_level_defined)) 0 =
      Some example_level_defined"
    by (simp add: example_data_def array_get_def)
  from setSlice_at_most_once [of example_level_defined 0 "ArrayBuffer [9]"
      "\<lparr>opt_byteOffset = None, opt_byteLength = None\<rparr>"
      "example_data example_level_defined" 0
      "WebGPUTextureClient_new \<lparr>features = None\<rparr>" empty_gpu
      "\<lparr>tex_mipmaps = False, tex_colorSpace = None\<rparr>"]
    setSlice_at_most_once [of example_level 0 "ArrayBuffer [1, 2, 3, 4]"
      "\<lparr>opt_byteOffset = None, opt_byteLength = None\<rparr>"]
    fresh first set held
  show ?thesis by simp
qed

section \<open>Properties of the one-colour texture\<close>









section \<open>Properties of the mipmap generator\<close>
















section \<open>Properties of the workers' format selection\<close>

text \<open>
  The Basis worker does walk two separate preference orders, one for sources with alpha and
  one for opaque sources, and takes the first transcoder format whose canonical format the
  device supports; it falls back to raw \<open>cTFRGBA32\<close> when none is.
\<close>

lemma basis_select_walks_orders:
  "basis_select hasAlpha fs =
     (case List.find (basis_supported fs)
             (if hasAlpha then basis_alpha_order else basis_opaque_order) of
        Some b \<Rightarrow> b
      | None \<Rightarrow> cTFRGBA32)"
  by (simp add: basis_select_def basis_alpha_order_def basis_opaque_order_def)

text \<open>
  Claim C4 asks that an opaque source be negotiated along the opaque preference list, and
  that a raw format be reached only when no compressed candidate is supported. The KTX
  worker does not do so: on a device that supports \<open>etc1-rgb-unorm\<close> and \<open>rgba8unorm\<close>,
  \<open>parseFile\<close> walks the alpha list for every texture and ends at the raw \<open>RGBA32\<close>, where a
  walk of \<open>opaqueFormatPreference\<close> finds \<open>ETC1_RGB\<close>, as the Basis worker does for an opaque
  source on the same device.
\<close>

theorem parseFile_ignores_opaque_preference:
  "parseFile_target True [''rgba8unorm'', ''etc1-rgb-unorm''] = Inr (''RGBA32'', ''rgba8unorm'') \<and>
   first_supported opaqueFormatPreference [''rgba8unorm'', ''etc1-rgb-unorm''] =
     Inr (Some (''ETC1_RGB'', ''etc1-rgb-unorm'')) \<and>
   basis_select False [''rgba8unorm'', ''etc1-rgb-unorm''] = cTFETC1_RGB \<and>
   basis_select True [''rgba8unorm'', ''etc1-rgb-unorm''] = cTFRGBA32"
  by (simp add: parseFile_target_def alphaFormatPreference_def opaqueFormatPreference_def
      KTX_WTT_FORMAT_MAP_def basis_select_def basis_supported_def BASIS_WTT_FORMAT_MAP_def)

end
